theory Spec2Isabelle
  imports Complex_Main "HOL-Library.Sublist"
begin

section \<open>JavaScript values at the types the code declares\<close>

text \<open>
  The orchestrator lives in \<^verbatim>\<open>services/gemini.ts\<close>; a second copy of the same
  module (\<^verbatim>\<open>unnamed/part_000\<close>) differs in a few places. Definitions without a
  suffix follow \<^verbatim>\<open>services/gemini.ts\<close>; definitions ending in \<open>_alt\<close> follow
  the second copy.

  Strings are lists of characters, one per UTF-16 code unit. A field read out of a
  parsed JSON object is absent (\<open>Undefined\<close>), \<open>Null\<close>, or a value of the type that
  the TypeScript interfaces in \<^verbatim>\<open>types.ts\<close> declare for it.
\<close>

datatype 'a js = Undefined | Null | Val 'a

text \<open>Truthiness of a string-typed field: \<^verbatim>\<open>undefined\<close>, \<^verbatim>\<open>null\<close> and \<^verbatim>\<open>""\<close> are falsy.\<close>

fun truthy :: "string js \<Rightarrow> bool" where
  "truthy (Val s) = (s \<noteq> [])"
| "truthy _ = False"

text \<open>\<^verbatim>\<open>x || d\<close> on a string-typed field and on an array-typed field (every array is truthy).\<close>

fun or_string :: "string js \<Rightarrow> string \<Rightarrow> string" where
  "or_string (Val s) d = (if s = [] then d else s)"
| "or_string _ d = d"

fun or_array :: "'a list js \<Rightarrow> 'a list \<Rightarrow> 'a list" where
  "or_array (Val xs) d = xs"
| "or_array _ d = d"

text \<open>A value inside a template literal: \<^verbatim>\<open>`${x}`\<close>.\<close>

fun template :: "string js \<Rightarrow> string" where
  "template (Val s) = s"
| "template Null = ''null''"
| "template Undefined = ''undefined''"

subsection \<open>Numbers\<close>

text \<open>
  A number: a finite value (the sign of zero is not kept), an infinity (which
  \<^verbatim>\<open>JSON.parse\<close> returns for a literal beyond the range of a double), or \<^verbatim>\<open>NaN\<close>.
\<close>

datatype number = NaN | NegInf | Num rat | PosInf

text \<open>
  The conversion a numeric operator applies to a number-typed field: \<^verbatim>\<open>undefined\<close> becomes
  \<^verbatim>\<open>NaN\<close>, \<^verbatim>\<open>null\<close> becomes 0.
\<close>

fun to_number :: "number js \<Rightarrow> number" where
  "to_number Undefined = NaN"
| "to_number Null = Num 0"
| "to_number (Val n) = n"

text \<open>\<^verbatim>\<open>Math.min(a, b)\<close>: \<^verbatim>\<open>NaN\<close> as soon as one argument is \<^verbatim>\<open>NaN\<close>.\<close>

fun math_min :: "number \<Rightarrow> number \<Rightarrow> number" where
  "math_min NaN b = NaN"
| "math_min a NaN = NaN"
| "math_min NegInf b = NegInf"
| "math_min a NegInf = NegInf"
| "math_min PosInf b = b"
| "math_min a PosInf = a"
| "math_min (Num a) (Num b) = Num (min a b)"

text \<open>\<^verbatim>\<open>a >= b\<close> and \<^verbatim>\<open>a <= b\<close> on numbers: false as soon as one side is \<^verbatim>\<open>NaN\<close>.\<close>

fun js_ge :: "number \<Rightarrow> number \<Rightarrow> bool" where
  "js_ge NaN b = False"
| "js_ge a NaN = False"
| "js_ge PosInf b = True"
| "js_ge a NegInf = True"
| "js_ge NegInf b = False"
| "js_ge a PosInf = False"
| "js_ge (Num a) (Num b) = (a \<ge> b)"


text \<open>
  What \<^verbatim>\<open>JSON.parse\<close> returns where the code reads the fields of an object: \<^verbatim>\<open>null\<close>, or
  an object read at its fields. A property read on \<^verbatim>\<open>null\<close> throws a \<^verbatim>\<open>TypeError\<close>.
\<close>

datatype 'a parsed = ParsedNull | ParsedObject 'a

subsection \<open>The built-in Map: insertion ordered, one entry per key\<close>

type_synonym ('k, 'v) jsmap = "('k \<times> 'v) list"

definition map_has :: "('k, 'v) jsmap \<Rightarrow> 'k \<Rightarrow> bool" where
  "map_has m k = (k \<in> set (map fst m))"

text \<open>\<^verbatim>\<open>set\<close> on a key already present replaces the value and keeps the position.\<close>

definition map_set :: "('k, 'v) jsmap \<Rightarrow> 'k \<Rightarrow> 'v \<Rightarrow> ('k, 'v) jsmap" where
  "map_set m k v =
     (if map_has m k then map (\<lambda>(k', v'). if k' = k then (k', v) else (k', v')) m
      else m @ [(k, v)])"

definition map_values :: "('k, 'v) jsmap \<Rightarrow> 'v list" where
  "map_values m = map snd m"

section \<open>Source reconciliation\<close>

record source =
  title :: "string js"
  uri :: "string js"

text \<open>
  \<^verbatim>\<open>services/gemini.ts\<close>, lines 283-290:
  \<^verbatim>\<open>
  const allSources = [...jsonSources, ...metadataSources];
  const uniqueSourcesMap = new Map();
  allSources.forEach(s => {
    if (s.uri && !uniqueSourcesMap.has(s.uri)) { uniqueSourcesMap.set(s.uri, s); }
  });
  currentSources = Array.from(uniqueSourcesMap.values());
  \<close>
\<close>

definition addSource :: "(string js, source) jsmap \<Rightarrow> source \<Rightarrow> (string js, source) jsmap" where
  "addSource uniqueSourcesMap s =
     (if truthy (uri s) \<and> \<not> map_has uniqueSourcesMap (uri s)
      then map_set uniqueSourcesMap (uri s) s else uniqueSourcesMap)"

definition uniqueSources :: "source list \<Rightarrow> source list" where
  "uniqueSources allSources = map_values (foldl addSource [] allSources)"

definition reconcile :: "source list \<Rightarrow> source list \<Rightarrow> source list" where
  "reconcile jsonSources metadataSources = uniqueSources (jsonSources @ metadataSources)"

text \<open>
  \<^verbatim>\<open>unnamed/part_000\<close>, lines 273-276:
  \<^verbatim>\<open>
  const allSources = [...jsonSources, ...metadataSources];
  currentSources = Array.from(new Map(allSources.map((s) => [s.uri, s])).values());
  \<close>
  The Map constructor calls \<^verbatim>\<open>set\<close> for every pair in turn.
\<close>

definition uniqueSources_alt :: "source list \<Rightarrow> source list" where
  "uniqueSources_alt allSources =
     map_values (foldl (\<lambda>m (k, s). map_set m k s) [] (map (\<lambda>s. (uri s, s)) allSources))"

definition reconcile_alt :: "source list \<Rightarrow> source list \<Rightarrow> source list" where
  "reconcile_alt jsonSources metadataSources = uniqueSources_alt (jsonSources @ metadataSources)"

section \<open>The generative service and the agent sessions\<close>

text \<open>
  Everything the module throws: a failure of the generative service, a \<^verbatim>\<open>SyntaxError\<close>
  of \<^verbatim>\<open>JSON.parse\<close>, a \<^verbatim>\<open>TypeError\<close> of a property read on
  \<^verbatim>\<open>undefined\<close> or \<^verbatim>\<open>null\<close>, and \<^verbatim>\<open>new Error(message)\<close>.
\<close>

datatype error = ServiceFailure | SyntaxError | TypeError | JsError string

text \<open>The three module-level sessions.\<close>

datatype persona = visaConsultant | travelGuide | legalDrafter

text \<open>A grounding chunk carries an optional web reference (title and URI).\<close>

record chunk =
  web :: "source option"

text \<open>
  What a call of the service returns: the \<^verbatim>\<open>text\<close> getter (\<open>None\<close> is
  \<^verbatim>\<open>undefined\<close>) and
  \<^verbatim>\<open>candidates?.[0]?.groundingMetadata?.groundingChunks\<close> (\<open>None\<close> when any link
  of the chain is missing).
\<close>

record response =
  response_text :: "string option"
  groundingChunks :: "chunk list option"

text \<open>A turn of a chat: the message sent and the text of the reply.\<close>

type_synonym turn = "string \<times> string option"

record AgentSession =
  chat :: "turn list option"
  history :: "turn list"

datatype schema = PurposeList | TipList | PolicyObject | ChecklistItems

text \<open>
  A request to the service. A chat message carries the context the chat has accumulated
  when the message is sent.
\<close>

datatype request =
    SendMessage persona "turn list" string "schema option"
  | GenerateContent string
  | GenerateFromImage string string string

text \<open>
  The state outside a call: the three sessions, the number of service calls made so far,
  the requests issued (oldest first) and the stage labels handed to \<^verbatim>\<open>onProgress\<close>.
\<close>

record world =
  sessions :: "persona \<Rightarrow> AgentSession"
  calls :: nat
  issued :: "request list"
  stages :: "string list"

text \<open>
  The evaluation as parsed: the response schema names no required field, so each of the
  three fields may be absent or \<^verbatim>\<open>null\<close>.
\<close>

record AgentEvaluation =
  score :: "number js"
  pass :: "bool js"
  reasoning :: "string js"

type_synonym VisaStep = "string js \<times> string js"

text \<open>The object parsed from the consultant's reply, read at the fields of the schema.\<close>

record policy_data =
  data_visaStatus :: "string js"
  data_summary :: "string js"
  data_whatsNext :: "VisaStep list js"
  data_timeline :: "string js"
  data_requirements :: "string list js"
  data_sources :: "source list js"

text \<open>
  A value of type \<^verbatim>\<open>any\<close> that \<^verbatim>\<open>JSON.parse\<close> returns. An object is the list of
  its properties; the order of the properties is not used.
\<close>

datatype json = JNull | JBool bool | JNum rat | JStr string | JArr "json list" | JObj "(string \<times> json) list"

text \<open>
  The surroundings of the module: the service (its answer may depend on the call's number
  and on the request), \<^verbatim>\<open>JSON.parse\<close> at the types its result is used at (\<open>None\<close> is a
  \<^verbatim>\<open>SyntaxError\<close>), \<^verbatim>\<open>JSON.stringify\<close> and the current year.
\<close>

record env =
  service :: "nat \<Rightarrow> request \<Rightarrow> error + response"
  parse_evaluation :: "string \<Rightarrow> AgentEvaluation parsed option"
  parse_data :: "string \<Rightarrow> policy_data parsed option"
  parse_json :: "string \<Rightarrow> json option"
  stringify_data :: "policy_data \<Rightarrow> string"
  stringify_fields :: "(string \<times> string) list \<Rightarrow> string"
  fullYear :: nat

definition nl :: string where
  "nl = [CHR 0x0A]"

definition digit :: "nat \<Rightarrow> char" where
  "digit d = ''0123456789'' ! d"

fun digits :: "nat \<Rightarrow> string" where
  "digits n = (if n < 10 then [digit n] else digits (n div 10) @ [digit (n mod 10)])"

declare digits.simps [simp del]

text \<open>\<^verbatim>\<open>JSON.parse(text || fallback)\<close>, with the value the fallback literal parses to.\<close>

definition JSON_parse_or :: "(string \<Rightarrow> 'a option) \<Rightarrow> string option \<Rightarrow> 'a \<Rightarrow> error + 'a" where
  "JSON_parse_or parse t fallback =
     (case t of
        None \<Rightarrow> Inr fallback
      | Some s \<Rightarrow>
          if s = [] then Inr fallback
          else (case parse s of None \<Rightarrow> Inl SyntaxError | Some v \<Rightarrow> Inr v))"

definition clearSession :: "persona \<Rightarrow> world \<Rightarrow> world" where
  "clearSession p w = w\<lparr>sessions := (sessions w)(p := (sessions w p)\<lparr>chat := None, history := []\<rparr>)\<rparr>"

text \<open>
  \<^verbatim>\<open>run\<close>: \<^verbatim>\<open>getSession\<close> creates the chat from \<^verbatim>\<open>this.history\<close> when there is
  none, then \<^verbatim>\<open>sendMessage\<close> is called on it. The chat is the object of the service's
  library (\<^verbatim>\<open>ai.chats.create\<close>): it keeps the turns it has seen and sends them along with
  the next message, until \<^verbatim>\<open>clearSession\<close> drops it.
\<close>

definition getSession :: "AgentSession \<Rightarrow> AgentSession" where
  "getSession this = (case chat this of None \<Rightarrow> this\<lparr>chat := Some (history this)\<rparr> | Some c \<Rightarrow> this)"

definition run :: "env \<Rightarrow> persona \<Rightarrow> string \<Rightarrow> schema option \<Rightarrow> world \<Rightarrow> (error + response) \<times> world" where
  "run e p prompt outputSchema w =
     (let this = getSession (sessions w p);
          context = (case chat this of None \<Rightarrow> [] | Some c \<Rightarrow> c);
          req = SendMessage p context prompt outputSchema;
          w1 = w\<lparr>calls := calls w + 1, issued := issued w @ [req]\<rparr>
      in case service e (calls w) req of
           Inl err \<Rightarrow> (Inl err, w1\<lparr>sessions := (sessions w)(p := this)\<rparr>)
         | Inr result \<Rightarrow>
             (Inr result,
              w1\<lparr>sessions := (sessions w)(p := this\<lparr>chat := Some (context @ [(prompt, response_text result)])\<rparr>)\<rparr>))"

subsection \<open>The evaluator\<close>

definition auditPrompt :: "string \<Rightarrow> string \<Rightarrow> string" where
  \<open>auditPrompt content criteria =
     ''You are an AI Output Auditor. '' @ nl @ ''      '' @ nl @
     ''      Task: Evaluate the quality of the following JSON data based on these criteria: "'' @
     criteria @ ''".'' @ nl @ ''      '' @ nl @ ''      Data to Evaluate:'' @ nl @ ''      '' @
     take 3000 content @ nl @ ''      '' @ nl @ ''      Return JSON with:'' @ nl @
     ''      - score: number (1-10, where 10 is perfect)'' @ nl @
     ''      - pass: boolean (true if usable, false if hallucinated or broken)'' @ nl @
     ''      - reasoning: string (brief explanation)''\<close>

definition failsafe :: AgentEvaluation where
  "failsafe = \<lparr>score = Val (Num 0), pass = Val False, reasoning = Val ''Evaluation failed''\<rparr>"

text \<open>
  \<^verbatim>\<open>evaluateOutput(content, criteria)\<close>, lines 90-118. The template literal reads
  \<^verbatim>\<open>content.substring\<close> before the request is made, which throws on
  \<^verbatim>\<open>undefined\<close>.
\<close>

definition evaluateOutput ::
  "env \<Rightarrow> string option \<Rightarrow> string \<Rightarrow> world \<Rightarrow> (error + AgentEvaluation parsed) \<times> world" where
  "evaluateOutput e content criteria w =
     (case content of
        None \<Rightarrow> (Inl TypeError, w)
      | Some c \<Rightarrow>
          (let req = GenerateContent (auditPrompt c criteria);
               w1 = w\<lparr>calls := calls w + 1, issued := issued w @ [req]\<rparr>
           in (case service e (calls w) req of
                 Inl err \<Rightarrow> (Inl err, w1)
               | Inr evalResponse \<Rightarrow>
                   (JSON_parse_or (parse_evaluation e) (response_text evalResponse) (ParsedObject failsafe),
                    w1))))"

section \<open>The self-correcting search\<close>

definition MAX_RETRIES :: nat where
  "MAX_RETRIES = 2"

text \<open>The variables the loop assigns: \<^verbatim>\<open>currentData\<close>, \<^verbatim>\<open>currentSources\<close>, \<^verbatim>\<open>verification\<close>.\<close>

record locals =
  currentData :: policy_data
  currentSources :: "source list"
  currentVerification :: AgentEvaluation

definition emptyData :: policy_data where
  "emptyData = \<lparr>data_visaStatus = Undefined, data_summary = Undefined, data_whatsNext = Undefined,
     data_timeline = Undefined, data_requirements = Undefined, data_sources = Undefined\<rparr>"

definition initialLocals :: locals where
  "initialLocals = \<lparr>currentData = emptyData, currentSources = [],
     currentVerification = \<lparr>score = Val (Num 0), pass = Val False, reasoning = Val []\<rparr>\<rparr>"

text \<open>\<^verbatim>\<open>if (onProgress) onProgress(stage)\<close>: the flag says whether a callback was passed.\<close>

definition notify :: "bool \<Rightarrow> string \<Rightarrow> world \<Rightarrow> world" where
  "notify onProgress stage w = (if onProgress then w\<lparr>stages := stages w @ [stage]\<rparr> else w)"

definition initialPrompt :: "env \<Rightarrow> string \<Rightarrow> string \<Rightarrow> string \<Rightarrow> string \<Rightarrow> string" where
  "initialPrompt e citizenship' residency' destination purpose' =
     ''Find current visa requirements for:'' @ nl @
     ''      - Citizen of: '' @ citizenship' @ nl @
     ''      - Residing in: '' @ residency' @ nl @
     ''      - Destination: '' @ destination @ nl @
     ''      - Purpose: '' @ purpose' @ nl @ nl @
     ''      I need a structured JSON response with status, summary, steps, timeline, requirements, and sources.'' @ nl @
     ''      Use Google Search to ensure data is current for '' @ digits (fullYear e) @ ''.'' @ nl @
     ''      IMPORTANT: The 'sources' array is MANDATORY. Extract URLs from search results.''"

definition retryPrompt :: "AgentEvaluation \<Rightarrow> string" where
  \<open>retryPrompt verification' =
     ''The previous answer was insufficient. Critique: "'' @ template (reasoning verification') @ ''". '' @ nl @
     ''        Please fix this. Search specifically for the missing information (especially official sources) and update the JSON.''\<close>

definition criteria :: string where
  "criteria =
     ''Does the data contain a definitive visa status? Is the timeline specific? '' @ nl @
     ''         CRITICAL: Does the 'sources' array contain at least one valid URL?''"

text \<open>
  Lines 279-281: the chunks with a \<^verbatim>\<open>web\<close> part, as title and URI;
  \<^verbatim>\<open>[]\<close> when the chain of optional reads yields \<^verbatim>\<open>undefined\<close>.
\<close>

definition metadataSources :: "response \<Rightarrow> source list" where
  "metadataSources raw =
     (case groundingChunks raw of
        None \<Rightarrow> []
      | Some chunks \<Rightarrow>
          List.map_filter
            (\<lambda>c. case web c of None \<Rightarrow> None | Some wb \<Rightarrow> Some \<lparr>title = title wb, uri = uri wb\<rparr>)
            chunks)"

text \<open>
  Lines 301-306, the manual guardrail:
  \<^verbatim>\<open>
  if (currentSources.length === 0) {
    verification.score = Math.min(verification.score, 5);
    verification.pass = false;
    verification.reasoning = (verification.reasoning || "") + " Missing official source links.";
  }
  \<close>
\<close>

definition guardrail :: "source list \<Rightarrow> AgentEvaluation \<Rightarrow> AgentEvaluation" where
  "guardrail sources' v =
     (if length sources' = 0
      then v\<lparr>score := Val (math_min (to_number (score v)) (Num 5)), pass := Val False,
             reasoning := Val (or_string (reasoning v) [] @ '' Missing official source links.'')\<rparr>
      else v)"

text \<open>
  One pass through the body of the loop, lines 254-306, up to the test of the score. When
  \<^verbatim>\<open>currentData\<close> is \<^verbatim>\<open>null\<close>, the read of \<^verbatim>\<open>currentData.sources\<close> throws. When the
  evaluation is \<^verbatim>\<open>null\<close>, the first read of \<^verbatim>\<open>verification.score\<close> throws: in the
  guardrail when there is no source, in the test of the loop otherwise; nothing happens
  between the two, so the throw is placed here.
\<close>

definition attempt ::
  "env \<Rightarrow> string \<Rightarrow> string \<Rightarrow> string \<Rightarrow> string \<Rightarrow> bool \<Rightarrow> nat \<Rightarrow> locals \<Rightarrow> world \<Rightarrow> (error + locals) \<times> world" where
  "attempt e citizenship' residency' destination purpose' onProgress attempts vars w =
     (let prompt =
            (if attempts > 0 then retryPrompt (currentVerification vars)
             else initialPrompt e citizenship' residency' destination purpose');
          w0 =
            (if attempts > 0
             then notify onProgress (''Self-Correcting (Attempt '' @ digits (attempts + 1) @ '')...'') w
             else notify onProgress ''Consulting Official Sources...'' w)
      in (case run e visaConsultant prompt (Some PolicyObject) w0 of
            (Inl err, w1) \<Rightarrow> (Inl err, w1)
          | (Inr raw, w1) \<Rightarrow>
              (case JSON_parse_or (parse_data e) (response_text raw) (ParsedObject emptyData) of
                 Inl err \<Rightarrow> (Inl err, w1)
               | Inr ParsedNull \<Rightarrow> (Inl TypeError, w1)
               | Inr (ParsedObject data) \<Rightarrow>
                   (let jsonSources = or_array (data_sources data) [];
                        sources' = reconcile jsonSources (metadataSources raw);
                        w2 = notify onProgress ''Verifying Accuracy (AI Auditor)...'' w1
                    in (case evaluateOutput e (response_text raw) criteria w2 of
                          (Inl err, w3) \<Rightarrow> (Inl err, w3)
                        | (Inr ParsedNull, w3) \<Rightarrow> (Inl TypeError, w3)
                        | (Inr (ParsedObject v), w3) \<Rightarrow>
                            (Inr \<lparr>currentData = data, currentSources = sources',
                                  currentVerification = guardrail sources' v\<rparr>, w3))))))"

text \<open>
  The loop of both copies:
  \<^verbatim>\<open>
  while (attempts <= MAX_RETRIES) {
    ... body ...
    if (verification.score >= 8) break;
    attempts++;
  }
  \<close>
  with the body as an argument, since the two copies differ in the body only. The test
  \<^verbatim>\<open>verification.score >= 8\<close> is \<open>accepted\<close>.
\<close>

definition accepted :: "AgentEvaluation \<Rightarrow> bool" where
  "accepted v = js_ge (to_number (score v)) (Num 8)"

function retry_loop ::
  "(nat \<Rightarrow> locals \<Rightarrow> world \<Rightarrow> (error + locals) \<times> world) \<Rightarrow> nat \<Rightarrow> locals \<Rightarrow> world \<Rightarrow> (error + locals) \<times> world" where
  "retry_loop body attempts vars w =
     (if attempts \<le> MAX_RETRIES
      then (case body attempts vars w of
              (Inl err, w') \<Rightarrow> (Inl err, w')
            | (Inr vars', w') \<Rightarrow>
                if accepted (currentVerification vars') then (Inr vars', w')
                else retry_loop body (attempts + 1) vars' w')
      else (Inr vars, w))"
  by pat_completeness auto
termination
  by (relation "measure (\<lambda>(body, attempts, vars, w). 3 - attempts)") (auto simp: MAX_RETRIES_def)

declare retry_loop.simps [simp del]

record VisaPolicy =
  country :: string
  citizenship :: string
  residency :: string
  purpose :: string
  visaStatus :: string
  summary :: string
  whatsNext :: "VisaStep list"
  timeline :: string
  requirements :: "string list"
  sources :: "source list"
  verification :: AgentEvaluation

text \<open>Lines 316-328: the record built from the variables the loop left.\<close>

definition buildPolicy :: "string \<Rightarrow> string \<Rightarrow> string \<Rightarrow> string \<Rightarrow> locals \<Rightarrow> VisaPolicy" where
  "buildPolicy citizenship' residency' destination purpose' vars =
     \<lparr>country = destination,
      citizenship = citizenship',
      residency = residency',
      purpose = purpose',
      visaStatus = or_string (data_visaStatus (currentData vars)) ''unknown'',
      summary = or_string (data_summary (currentData vars)) ''Summary not available'',
      whatsNext = or_array (data_whatsNext (currentData vars)) [],
      timeline = or_string (data_timeline (currentData vars)) ''Check official sources'',
      requirements = or_array (data_requirements (currentData vars)) [],
      sources = currentSources vars,
      verification = currentVerification vars\<rparr>"

text \<open>
  \<^verbatim>\<open>searchVisaInfo\<close>, lines 211-334. The \<^verbatim>\<open>catch\<close> logs the error and throws it
  again, so an error of the loop is the error of the call.
\<close>

definition searchVisaInfo ::
  "env \<Rightarrow> string \<Rightarrow> string \<Rightarrow> string \<Rightarrow> string \<Rightarrow> bool \<Rightarrow> world \<Rightarrow> (error + VisaPolicy) \<times> world" where
  "searchVisaInfo e citizenship' residency' destination purpose' onProgress w =
     (case retry_loop (attempt e citizenship' residency' destination purpose' onProgress) 0 initialLocals
             (clearSession visaConsultant w) of
        (Inl err, w') \<Rightarrow> (Inl err, w')
      | (Inr vars, w') \<Rightarrow> (Inr (buildPolicy citizenship' residency' destination purpose' vars), w'))"

subsection \<open>The second copy of the search\<close>

definition initialPrompt_alt :: "string \<Rightarrow> string \<Rightarrow> string \<Rightarrow> string \<Rightarrow> string" where
  "initialPrompt_alt citizenship' residency' destination purpose' =
     ''Find requirements for '' @ citizenship' @ '' citizen residing in '' @ residency' @
     '' visiting '' @ destination @ '' for '' @ purpose' @ ''.'' @ nl @
     ''      Use Google Search. Return JSON with status, timeline, requirements, and SOURCES.''"

definition retryPrompt_alt :: "AgentEvaluation \<Rightarrow> string" where
  \<open>retryPrompt_alt verification' =
     ''Previous answer quality was poor: "'' @ template (reasoning verification') @
     ''". Fix missing sources/details. Search again.''\<close>

definition AUDITOR_SYSTEM_PROMPT :: string where
  "AUDITOR_SYSTEM_PROMPT =
     ''You are an AI Output Auditor. '' @ nl @
     ''Task: Evaluate the quality of the provided JSON data.'' @ nl @
     ''Criteria: Completeness, Source Validity, and Logic.'' @ nl @
     ''Return strict JSON evaluation.''"

definition auditPrompt_alt :: "env \<Rightarrow> policy_data \<Rightarrow> source list \<Rightarrow> string" where
  "auditPrompt_alt e data sources' =
     AUDITOR_SYSTEM_PROMPT @ '' '' @ nl @ '' Data: '' @ stringify_data e data @ '' '' @ nl @
     '' Sources Count: '' @ digits (length sources')"

text \<open>The value of the fallback literal \<^verbatim>\<open>'{"score": 0}'\<close> of line 299.\<close>

definition failsafe_alt :: AgentEvaluation where
  "failsafe_alt = \<lparr>score = Val (Num 0), pass = Undefined, reasoning = Undefined\<rparr>"

text \<open>
  Lines 282-299 of the second copy: the evaluation is made in the loop itself, from
  \<^verbatim>\<open>JSON.stringify(currentData)\<close> and the number of sources.
\<close>

definition evaluate_alt ::
  "env \<Rightarrow> policy_data \<Rightarrow> source list \<Rightarrow> world \<Rightarrow> (error + AgentEvaluation parsed) \<times> world" where
  "evaluate_alt e data sources' w =
     (let req = GenerateContent (auditPrompt_alt e data sources');
          w1 = w\<lparr>calls := calls w + 1, issued := issued w @ [req]\<rparr>
      in (case service e (calls w) req of
            Inl err \<Rightarrow> (Inl err, w1)
          | Inr evalResponse \<Rightarrow>
              (JSON_parse_or (parse_evaluation e) (response_text evalResponse) (ParsedObject failsafe_alt),
               w1)))"

text \<open>
  Lines 301-305 of the second copy:
  \<^verbatim>\<open>
  if (currentSources.length === 0) {
    verification.score = Math.min(verification.score, 5);
    verification.reasoning += " Missing official sources.";
  }
  \<close>
\<close>

definition guardrail_alt :: "source list \<Rightarrow> AgentEvaluation \<Rightarrow> AgentEvaluation" where
  "guardrail_alt sources' v =
     (if length sources' = 0
      then v\<lparr>score := Val (math_min (to_number (score v)) (Num 5)),
             reasoning := Val (template (reasoning v) @ '' Missing official sources.'')\<rparr>
      else v)"

definition attempt_alt ::
  "env \<Rightarrow> string \<Rightarrow> string \<Rightarrow> string \<Rightarrow> string \<Rightarrow> bool \<Rightarrow> nat \<Rightarrow> locals \<Rightarrow> world \<Rightarrow> (error + locals) \<times> world" where
  "attempt_alt e citizenship' residency' destination purpose' onProgress attempts vars w =
     (let prompt =
            (if attempts > 0 then retryPrompt_alt (currentVerification vars)
             else initialPrompt_alt citizenship' residency' destination purpose');
          w0 =
            (if attempts > 0
             then notify onProgress (''Self-Correcting (Attempt '' @ digits (attempts + 1) @ '')...'') w
             else notify onProgress ''Consulting Official Sources...'' w)
      in (case run e visaConsultant prompt (Some PolicyObject) w0 of
            (Inl err, w1) \<Rightarrow> (Inl err, w1)
          | (Inr raw, w1) \<Rightarrow>
              (case JSON_parse_or (parse_data e) (response_text raw) (ParsedObject emptyData) of
                 Inl err \<Rightarrow> (Inl err, w1)
               | Inr ParsedNull \<Rightarrow> (Inl TypeError, w1)
               | Inr (ParsedObject data) \<Rightarrow>
                   (let jsonSources = or_array (data_sources data) [];
                        sources' = reconcile_alt jsonSources (metadataSources raw);
                        w2 = notify onProgress ''Verifying Accuracy (AI Auditor)...'' w1
                    in (case evaluate_alt e data sources' w2 of
                          (Inl err, w3) \<Rightarrow> (Inl err, w3)
                        | (Inr ParsedNull, w3) \<Rightarrow> (Inl TypeError, w3)
                        | (Inr (ParsedObject v), w3) \<Rightarrow>
                            (Inr \<lparr>currentData = data, currentSources = sources',
                                  currentVerification = guardrail_alt sources' v\<rparr>, w3))))))"

definition searchVisaInfo_alt ::
  "env \<Rightarrow> string \<Rightarrow> string \<Rightarrow> string \<Rightarrow> string \<Rightarrow> bool \<Rightarrow> world \<Rightarrow> (error + VisaPolicy) \<times> world" where
  "searchVisaInfo_alt e citizenship' residency' destination purpose' onProgress w =
     (case retry_loop (attempt_alt e citizenship' residency' destination purpose' onProgress) 0 initialLocals
             (clearSession visaConsultant w) of
        (Inl err, w') \<Rightarrow> (Inl err, w')
      | (Inr vars, w') \<Rightarrow> (Inr (buildPolicy citizenship' residency' destination purpose' vars), w'))"

section \<open>The one-shot orchestrators\<close>

text \<open>
  \<^verbatim>\<open>JSON.parse\<close> at type \<^verbatim>\<open>any\<close>: the two fallback literals have the value they
  denote, every other text is left to the surroundings.
\<close>

definition JSON_parse :: "env \<Rightarrow> string \<Rightarrow> error + json" where
  "JSON_parse e s =
     (if s = ''{}'' then Inr (JObj [])
      else if s = ''[]'' then Inr (JArr [])
      else (case parse_json e s of None \<Rightarrow> Inl SyntaxError | Some v \<Rightarrow> Inr v))"

text \<open>\<^verbatim>\<open>text || d\<close> on the text of a response.\<close>

definition text_or :: "string option \<Rightarrow> string \<Rightarrow> string" where
  "text_or t d = (case t of None \<Rightarrow> d | Some s \<Rightarrow> if s = [] then d else s)"

definition getCommonVisaPurposes :: "env \<Rightarrow> string \<Rightarrow> string \<Rightarrow> world \<Rightarrow> (error + json) \<times> world" where
  "getCommonVisaPurposes e citizenship' destination w =
     (case run e visaConsultant
             (''Suggest 5 common visa purposes for a '' @ citizenship' @ '' citizen visiting '' @
              destination @ ''. Return JSON only.'')
             (Some PurposeList) (clearSession visaConsultant w) of
        (Inl err, w') \<Rightarrow> (Inl err, w')
      | (Inr r, w') \<Rightarrow> (JSON_parse e (text_or (response_text r) ''[]''), w'))"

definition getTravelAdvisory :: "env \<Rightarrow> string \<Rightarrow> world \<Rightarrow> (error + json) \<times> world" where
  "getTravelAdvisory e destination w =
     (case run e travelGuide
             (''Give me 3 critical safety or cultural etiquette tips for a tourist visiting '' @
              destination @ ''.'')
             (Some TipList) (clearSession travelGuide w) of
        (Inl err, w') \<Rightarrow> (Inl err, w')
      | (Inr r, w') \<Rightarrow> (JSON_parse e (text_or (response_text r) ''[]''), w'))"

text \<open>
  The own enumerable properties that \<^verbatim>\<open>{...item}\<close> copies: those of an object, the
  indices of an array or of a string, none for the other values.
\<close>

fun spread :: "json \<Rightarrow> (string \<times> json) list" where
  "spread (JObj props) = props"
| "spread (JArr xs) = zip (map digits [0..<length xs]) xs"
| "spread (JStr s) = zip (map digits [0..<length s]) (map (\<lambda>c. JStr [c]) s)"
| "spread _ = []"

text \<open>
  \<^verbatim>\<open>generateDocumentChecklist\<close>, lines 337-359. \<^verbatim>\<open>items.map\<close> exists on arrays
  only; a property written after the spread replaces the one the spread copied.
\<close>

definition checklistPrompt :: "VisaPolicy \<Rightarrow> string" where
  "checklistPrompt policy =
     (let isVisaFree = (visaStatus policy = ''visa_free'')
      in ''Generate a JSON checklist for '' @ country policy @ ''. Status: '' @ visaStatus policy @ ''.'' @ nl @
         ''     '' @ (if isVisaFree then ''Only entry docs (Passport, Ticket).'' else ''Full visa application docs.''))"

definition generateDocumentChecklist :: "env \<Rightarrow> VisaPolicy \<Rightarrow> world \<Rightarrow> (error + json list) \<times> world" where
  "generateDocumentChecklist e policy w =
     (case run e legalDrafter (checklistPrompt policy) (Some ChecklistItems) w of
        (Inl err, w') \<Rightarrow> (Inl err, w')
      | (Inr r, w') \<Rightarrow>
          (case JSON_parse e (text_or (response_text r) ''[]'') of
             Inl err \<Rightarrow> (Inl err, w')
           | Inr items \<Rightarrow>
               (case items of
                  JArr xs \<Rightarrow> (Inr (map (\<lambda>item. JObj (map_set (spread item) ''completed'' (JBool False))) xs), w')
                | _ \<Rightarrow> (Inl TypeError, w'))))"

datatype DocTemplate = cover_letter | itinerary | employment_proof

fun template_name :: "DocTemplate \<Rightarrow> string" where
  "template_name cover_letter = ''cover-letter''"
| "template_name itinerary = ''itinerary''"
| "template_name employment_proof = ''employment-proof''"

text \<open>\<^verbatim>\<open>generateVisaDocument\<close>, lines 362-374; \<open>None\<close> for a field is \<^verbatim>\<open>undefined\<close>.\<close>

definition documentPrompt :: "env \<Rightarrow> DocTemplate \<Rightarrow> (string \<times> string) list \<Rightarrow> string" where
  "documentPrompt e template' data =
     ''Write a '' @ template_name template' @ '' for '' @
     (case map_of data ''destination'' of None \<Rightarrow> ''undefined'' | Some d \<Rightarrow> d) @ ''. '' @ nl @
     ''    Details: '' @ stringify_fields e data @ ''. '' @ nl @
     ''    Format: Professional, formal tone.'' @ nl @
     ''    IMPORTANT: Do NOT include the top formal letter header block (Sender Name/Address, Phone, Email, Date, Recipient Address). '' @ nl @
     ''    Start directly with the Subject Line or Salutation.''"

definition generateVisaDocument ::
  "env \<Rightarrow> DocTemplate \<Rightarrow> (string \<times> string) list \<Rightarrow> world \<Rightarrow> (error + string option) \<times> world" where
  "generateVisaDocument e template' data w =
     (case run e legalDrafter (documentPrompt e template' data) None w of
        (Inl err, w') \<Rightarrow> (Inl err, w')
      | (Inr r, w') \<Rightarrow> (Inr (response_text r), w'))"

subsection \<open>Reading a passport image\<close>

text \<open>
  A property read \<^verbatim>\<open>result.name\<close>: a \<^verbatim>\<open>TypeError\<close> on \<^verbatim>\<open>null\<close>, the property of
  an object, \<^verbatim>\<open>undefined\<close> (\<open>None\<close>) otherwise. None of the names read here is a
  built-in property of a string or an array.
\<close>

fun get_prop :: "json \<Rightarrow> string \<Rightarrow> error + json option" where
  "get_prop JNull name = Inl TypeError"
| "get_prop (JObj props) name = Inr (map_of props name)"
| "get_prop _ name = Inr None"

text \<open>Truthiness of a value that may be \<^verbatim>\<open>undefined\<close>.\<close>

fun truthy_json :: "json option \<Rightarrow> bool" where
  "truthy_json None = False"
| "truthy_json (Some JNull) = False"
| "truthy_json (Some (JBool b)) = b"
| "truthy_json (Some (JNum n)) = (n \<noteq> 0)"
| "truthy_json (Some (JStr s)) = (s \<noteq> [])"
| "truthy_json (Some (JArr xs)) = True"
| "truthy_json (Some (JObj props)) = True"

definition passportPrompt :: string where
  "passportPrompt =
     ''Analyze this image of a passport or identification document.'' @ nl @
     ''  Extract the following information into a strict JSON object:'' @ nl @
     ''  - fullName'' @ nl @
     ''  - passportNumber'' @ nl @
     ''  - citizenship'' @ nl @
     ''  - dateOfBirth (YYYY-MM-DD)'' @ nl @
     ''  - passportExpiry (YYYY-MM-DD)'' @ nl @
     ''  '' @ nl @
     ''  If a field is not visible or cannot be read, return null. '' @ nl @
     ''  Do not be strict about document validity; extract any text that looks like the requested fields.''"

text \<open>
  Lines 419-422:
  \<^verbatim>\<open>
  let cleanedText = response.text || "{}";
  if (cleanedText.startsWith("```")) {
    cleanedText = cleanedText.replace(/^```(json)?\n/, "").replace(/\n```$/, "");
  }
  \<close>
  Neither pattern has a flag, so \<^verbatim>\<open>^\<close> and \<^verbatim>\<open>$\<close> are the two ends of the text.
\<close>

definition replace_head :: "string \<Rightarrow> string" where
  "replace_head s =
     (if prefix (''```json'' @ nl) s then drop 8 s
      else if prefix (''```'' @ nl) s then drop 4 s
      else s)"

definition replace_tail :: "string \<Rightarrow> string" where
  "replace_tail s = (if suffix (nl @ ''```'') s then take (length s - 4) s else s)"

definition cleanText :: "string option \<Rightarrow> string" where
  "cleanText t =
     (let cleanedText = text_or t ''{}''
      in if prefix ''```'' cleanedText then replace_tail (replace_head cleanedText) else cleanedText)"

definition extractionError :: error where
  "extractionError = JsError ''Could not extract passport details. The image might be too blurry or obscure.''"

text \<open>
  Lines 424-436: the test of the two fields, then the object of the five fields (a field
  that is \<^verbatim>\<open>undefined\<close> is \<open>None\<close>).
\<close>

definition checkPassport :: "json \<Rightarrow> error + (string \<times> json option) list" where
  "checkPassport result =
     (case get_prop result ''passportNumber'' of
        Inl err \<Rightarrow> Inl err
      | Inr passportNumber \<Rightarrow>
          (case get_prop result ''fullName'' of
             Inl err \<Rightarrow> Inl err
           | Inr fullName \<Rightarrow>
               if \<not> truthy_json passportNumber \<and> \<not> truthy_json fullName then Inl extractionError
               else Inr (map (\<lambda>name. (name, (case get_prop result name of Inl err \<Rightarrow> None | Inr v \<Rightarrow> v)))
                          [''fullName'', ''passportNumber'', ''citizenship'', ''dateOfBirth'', ''passportExpiry''])))"

definition parsePassportImage ::
  "env \<Rightarrow> string \<Rightarrow> string \<Rightarrow> world \<Rightarrow> (error + (string \<times> json option) list) \<times> world" where
  "parsePassportImage e base64Image mimeType w =
     (let req = GenerateFromImage base64Image mimeType passportPrompt;
          w1 = w\<lparr>calls := calls w + 1, issued := issued w @ [req]\<rparr>
      in (case service e (calls w) req of
            Inl err \<Rightarrow> (Inl err, w1)
          | Inr response' \<Rightarrow>
              (case JSON_parse e (cleanText (response_text response')) of
                 Inl err \<Rightarrow> (Inl err, w1)
               | Inr result \<Rightarrow> (checkPassport result, w1))))"

text \<open>
  The second copy, lines 404-415: a shorter prompt and message, and the parsed value itself
  is returned.
\<close>

definition passportPrompt_alt :: string where
  "passportPrompt_alt =
     ''Analyze this ID. Extract JSON: fullName, passportNumber, citizenship, dateOfBirth (YYYY-MM-DD), passportExpiry (YYYY-MM-DD). Return null if unclear.''"

definition checkPassport_alt :: "json \<Rightarrow> error + json" where
  "checkPassport_alt result =
     (case get_prop result ''passportNumber'' of
        Inl err \<Rightarrow> Inl err
      | Inr passportNumber \<Rightarrow>
          (case get_prop result ''fullName'' of
             Inl err \<Rightarrow> Inl err
           | Inr fullName \<Rightarrow>
               if \<not> truthy_json passportNumber \<and> \<not> truthy_json fullName
               then Inl (JsError ''Could not extract details.'')
               else Inr result))"

definition parsePassportImage_alt :: "env \<Rightarrow> string \<Rightarrow> string \<Rightarrow> world \<Rightarrow> (error + json) \<times> world" where
  "parsePassportImage_alt e base64Image mimeType w =
     (let req = GenerateFromImage base64Image mimeType passportPrompt_alt;
          w1 = w\<lparr>calls := calls w + 1, issued := issued w @ [req]\<rparr>
      in (case service e (calls w) req of
            Inl err \<Rightarrow> (Inl err, w1)
          | Inr response' \<Rightarrow>
              (case JSON_parse e (cleanText (response_text response')) of
                 Inl err \<Rightarrow> (Inl err, w1)
               | Inr result \<Rightarrow> (checkPassport_alt result, w1))))"

section \<open>Observations on a run\<close>

text \<open>The number of \<^verbatim>\<open>run\<close> calls (chat messages) among the requests issued.\<close>

fun is_run :: "request \<Rightarrow> bool" where
  "is_run (SendMessage p context prompt outputSchema) = True"
| "is_run _ = False"

definition runCalls :: "world \<Rightarrow> nat" where
  "runCalls w = length (filter is_run (issued w))"

text \<open>The state at the start of the process: three sessions without a chat, nothing issued.\<close>

definition startWorld :: world where
  "startWorld = \<lparr>sessions = (\<lambda>p. \<lparr>chat = None, history = []\<rparr>), calls = 0, issued = [], stages = []\<rparr>"

section \<open>Concrete surroundings\<close>

text \<open>
  A service that answers the n-th call with the n-th text of a list, and
  \<^verbatim>\<open>JSON.parse\<close> on the texts used below; any other text counts as malformed.
\<close>

definition demo_parse_data :: "string \<Rightarrow> policy_data parsed option" where
  \<open>demo_parse_data s =
     (if s = ''{"visaStatus":"visa_free","sources":[{"title":"MOFA","uri":"https://www.mofa.go.jp"}]}''
      then Some (ParsedObject (emptyData\<lparr>data_visaStatus := Val ''visa_free'',
                  data_sources := Val [\<lparr>title = Val ''MOFA'', uri = Val ''https://www.mofa.go.jp''\<rparr>]\<rparr>))
      else if s = ''{"summary":"third draft","timeline":null,"sources":[{"title":"MOFA","uri":"https://www.mofa.go.jp"}]}''
      then Some (ParsedObject (emptyData\<lparr>data_summary := Val ''third draft'', data_timeline := Null,
                  data_sources := Val [\<lparr>title = Val ''MOFA'', uri = Val ''https://www.mofa.go.jp''\<rparr>]\<rparr>))
      else if s = ''{"summary":"no links"}''
      then Some (ParsedObject (emptyData\<lparr>data_summary := Val ''no links''\<rparr>))
      else None)\<close>

definition demo_parse_evaluation :: "string \<Rightarrow> AgentEvaluation parsed option" where
  \<open>demo_parse_evaluation s =
     (if s = ''{"score":9,"pass":true,"reasoning":"complete"}''
      then Some (ParsedObject \<lparr>score = Val (Num 9), pass = Val True, reasoning = Val ''complete''\<rparr>)
      else if s = ''{"score":7,"pass":true,"reasoning":"timeline vague"}''
      then Some (ParsedObject \<lparr>score = Val (Num 7), pass = Val True, reasoning = Val ''timeline vague''\<rparr>)
      else if s = ''{"score":3,"pass":false,"reasoning":"worse"}''
      then Some (ParsedObject \<lparr>score = Val (Num 3), pass = Val False, reasoning = Val ''worse''\<rparr>)
      else if s = ''{"pass":true,"reasoning":"fine"}''
      then Some (ParsedObject \<lparr>score = Undefined, pass = Val True, reasoning = Val ''fine''\<rparr>)
      else if s = ''null''
      then Some ParsedNull
      else None)\<close>

definition demo_parse_json :: "string \<Rightarrow> json option" where
  \<open>demo_parse_json s =
     (if s = ''[{"id":"passport","completed":true}]''
      then Some (JArr [JObj [(''id'', JStr ''passport''), (''completed'', JBool True)]])
      else if s = ''{"fullName":"","passportNumber":null}''
      then Some (JObj [(''fullName'', JStr []), (''passportNumber'', JNull)])
      else if s = ''{"fullName":"A. Traveller","passportNumber":null}''
      then Some (JObj [(''fullName'', JStr ''A. Traveller''), (''passportNumber'', JNull)])
      else None)\<close>

definition scripted :: "string option list \<Rightarrow> env" where
  "scripted replies =
     \<lparr>service = (\<lambda>n req. if n < length replies
                           then Inr \<lparr>response_text = replies ! n, groundingChunks = None\<rparr>
                           else Inl ServiceFailure),
      parse_evaluation = demo_parse_evaluation,
      parse_data = demo_parse_data,
      parse_json = demo_parse_json,
      stringify_data = (\<lambda>d. ''{}''),
      stringify_fields = (\<lambda>fs. ''{}''),
      fullYear = 2025\<rparr>"

definition acceptedAtOnce :: env where
  \<open>acceptedAtOnce = scripted
     [Some ''{"visaStatus":"visa_free","sources":[{"title":"MOFA","uri":"https://www.mofa.go.jp"}]}'',
      Some ''{"score":9,"pass":true,"reasoning":"complete"}'']\<close>

definition rejectedThrice :: env where
  \<open>rejectedThrice = scripted
     [Some ''{"visaStatus":"visa_free","sources":[{"title":"MOFA","uri":"https://www.mofa.go.jp"}]}'',
      Some ''{"score":7,"pass":true,"reasoning":"timeline vague"}'',
      Some ''{"visaStatus":"visa_free","sources":[{"title":"MOFA","uri":"https://www.mofa.go.jp"}]}'',
      Some ''{"score":7,"pass":true,"reasoning":"timeline vague"}'',
      Some ''{"summary":"third draft","timeline":null,"sources":[{"title":"MOFA","uri":"https://www.mofa.go.jp"}]}'',
      Some ''{"score":3,"pass":false,"reasoning":"worse"}'']\<close>







text \<open>A map whose keys are distinct and whose every entry is stored under its own URI.\<close>

definition keyed :: "(string js, source) jsmap \<Rightarrow> bool" where
  "keyed m = (distinct (map fst m) \<and> (\<forall>(k, s) \<in> set m. uri s = k))"

definition groundedReply :: response where
  "groundedReply =
     \<lparr>response_text = None,
      groundingChunks =
        Some [\<lparr>web = Some \<lparr>title = Val ''mofa.go.jp'', uri = Val ''https://www.mofa.go.jp''\<rparr>\<rparr>,
              \<lparr>web = None\<rparr>]\<rparr>"

definition drafterReplies :: env where
  \<open>drafterReplies = scripted [Some ''Dear Consul,'', Some ''[{"id":"passport","completed":true}]'']\<close>

definition checklistReply :: env where
  \<open>checklistReply = scripted [Some ''[{"id":"passport","completed":true}]'']\<close>

definition emptyNameReply :: env where
  \<open>emptyNameReply = scripted [Some ''{"fullName":"","passportNumber":null}'']\<close>

definition fencedNameReply :: env where
  \<open>fencedNameReply = scripted
     [Some (''```json'' @ nl @ ''{"fullName":"A. Traveller","passportNumber":null}'' @ nl @ ''```'')]\<close>

definition demoPolicy :: VisaPolicy where
  "demoPolicy = buildPolicy ''Canada'' ''Canada'' ''Japan'' ''Tourism''
     (initialLocals\<lparr>currentData := emptyData\<lparr>data_visaStatus := Val ''visa_free''\<rparr>\<rparr>)"

section \<open>The retry loop\<close>

lemma runCalls_notify [simp]: "runCalls (notify cb s w) = runCalls w"
  by (simp add: notify_def runCalls_def)

lemma runCalls_clearSession [simp]: "runCalls (clearSession p w) = runCalls w"
  by (simp add: clearSession_def runCalls_def)

lemma runCalls_run: "run e p prompt sch w = (res, w') \<Longrightarrow> runCalls w' = runCalls w + 1"
  by (auto simp: run_def runCalls_def Let_def split: sum.splits)

lemma runCalls_evaluateOutput: "evaluateOutput e c crit w = (res, w') \<Longrightarrow> runCalls w' = runCalls w"
  by (auto simp: evaluateOutput_def runCalls_def Let_def split: sum.splits option.splits)

lemma runCalls_evaluate_alt: "evaluate_alt e d s w = (res, w') \<Longrightarrow> runCalls w' = runCalls w"
  by (auto simp: evaluate_alt_def runCalls_def Let_def split: sum.splits option.splits)

lemma runCalls_attempt:
  "attempt e c r d p cb n vars w = (res, w') \<Longrightarrow> runCalls w' = runCalls w + 1"
  unfolding attempt_def Let_def
  by (auto split: sum.splits prod.splits if_splits parsed.splits dest!: runCalls_run runCalls_evaluateOutput)

lemma runCalls_attempt_alt:
  "attempt_alt e c r d p cb n vars w = (res, w') \<Longrightarrow> runCalls w' = runCalls w + 1"
  unfolding attempt_alt_def Let_def
  by (auto split: sum.splits prod.splits if_splits parsed.splits dest!: runCalls_run runCalls_evaluate_alt)

lemma retry_loop_stop:
  "\<not> n \<le> MAX_RETRIES \<Longrightarrow> retry_loop body n vars w = (Inr vars, w)"
  by (subst retry_loop.simps) simp

lemma retry_loop_error:
  "n \<le> MAX_RETRIES \<Longrightarrow> body n vars w = (Inl err, w') \<Longrightarrow> retry_loop body n vars w = (Inl err, w')"
  by (subst retry_loop.simps) simp

lemma retry_loop_accept:
  "n \<le> MAX_RETRIES \<Longrightarrow> body n vars w = (Inr vars', w') \<Longrightarrow> accepted (currentVerification vars')
     \<Longrightarrow> retry_loop body n vars w = (Inr vars', w')"
  by (subst retry_loop.simps) simp

lemma retry_loop_reject:
  "n \<le> MAX_RETRIES \<Longrightarrow> body n vars w = (Inr vars', w') \<Longrightarrow> \<not> accepted (currentVerification vars')
     \<Longrightarrow> retry_loop body n vars w = retry_loop body (n + 1) vars' w'"
  by (subst retry_loop.simps) simp

lemma retry_loop_last:
  "body 2 vars w = (Inr vars', w') \<Longrightarrow> retry_loop body 2 vars w = (Inr vars', w')"
  by (cases "accepted (currentVerification vars')")
     (simp_all add: retry_loop_accept retry_loop_reject retry_loop_stop MAX_RETRIES_def)

lemma retry_loop_runs:
  assumes body: "\<And>m v u res u'. body m v u = (res, u') \<Longrightarrow> runCalls u' = runCalls u + 1"
  shows "runCalls (snd (retry_loop body n vars w)) \<le> runCalls w + (3 - n)"
proof (induction "3 - n" arbitrary: n vars w)
  case 0
  then show ?case by (simp add: retry_loop_stop MAX_RETRIES_def)
next
  case (Suc k)
  then have n: "n \<le> MAX_RETRIES" and k: "k = 3 - (n + 1)" and n2: "n \<le> 2"
    by (simp_all add: MAX_RETRIES_def)
  obtain res w' where b: "body n vars w = (res, w')" by (cases "body n vars w")
  have w': "runCalls w' = runCalls w + 1" using body[OF b] .
  show ?case
  proof (cases res)
    case (Inl err)
    then show ?thesis using n n2 b w' by (simp add: retry_loop_error)
  next
    case (Inr vars')
    show ?thesis
    proof (cases "accepted (currentVerification vars')")
      case True
      then show ?thesis using n n2 b w' Inr by (simp add: retry_loop_accept)
    next
      case False
      have "runCalls (snd (retry_loop body (n + 1) vars' w')) \<le> runCalls w' + (3 - (n + 1))"
        using Suc.hyps(1)[OF k] .
      moreover have "retry_loop body n vars w = retry_loop body (n + 1) vars' w'"
        using n b Inr False by (simp add: retry_loop_reject)
      ultimately show ?thesis using w' n2 by simp
    qed
  qed
qed

lemma retry_loop_result:
  assumes body: "\<And>m v u v' u'. body m v u = (Inr v', u') \<Longrightarrow> P v'"
  shows "retry_loop body n vars w = (Inr vars', w') \<Longrightarrow> n \<le> MAX_RETRIES \<Longrightarrow> P vars'"
proof (induction "3 - n" arbitrary: n vars w)
  case 0
  then show ?case by (simp add: MAX_RETRIES_def)
next
  case (Suc k)
  obtain res w1 where b: "body n vars w = (res, w1)" by (cases "body n vars w")
  show ?case
  proof (cases res)
    case (Inl err)
    then show ?thesis using Suc.prems b by (simp add: retry_loop_error)
  next
    case (Inr v1)
    show ?thesis
    proof (cases "accepted (currentVerification v1)")
      case True
      then have "vars' = v1" using Suc.prems b Inr by (simp add: retry_loop_accept)
      then show ?thesis using body b Inr by simp
    next
      case False
      then have next_call: "retry_loop body (n + 1) v1 w1 = (Inr vars', w')"
        using Suc.prems b Inr by (simp add: retry_loop_reject)
      show ?thesis
      proof (cases "n + 1 \<le> MAX_RETRIES")
        case True
        have "k = 3 - (n + 1)" using Suc.hyps(2) by simp
        then show ?thesis using Suc.hyps(1) next_call True by blast
      next
        case False
        then have "vars' = v1" using next_call by (simp add: retry_loop_stop)
        then show ?thesis using body b Inr by simp
      qed
    qed
  qed
qed

lemmas demo_eval =
  attempt_def run_def getSession_def clearSession_def startWorld_def notify_def
  scripted_def JSON_parse_or_def demo_parse_data_def demo_parse_evaluation_def
  evaluateOutput_def guardrail_def reconcile_def uniqueSources_def addSource_def map_set_def
  map_has_def map_values_def metadataSources_def emptyData_def runCalls_def Let_def

lemma snd_searchVisaInfo:
  "snd (searchVisaInfo e c r d p cb w) =
   snd (retry_loop (attempt e c r d p cb) 0 initialLocals (clearSession visaConsultant w))"
proof -
  obtain res w' where l: "retry_loop (attempt e c r d p cb) 0 initialLocals (clearSession visaConsultant w) = (res, w')"
    by (cases "retry_loop (attempt e c r d p cb) 0 initialLocals (clearSession visaConsultant w)")
  show ?thesis unfolding searchVisaInfo_def l by (cases res) simp_all
qed

text \<open>
  Claim C1. A call of \<^verbatim>\<open>searchVisaInfo\<close> issues at most three \<^verbatim>\<open>run\<close> calls,
  whatever the service answers and also when the call ends in an error. At every attempt
  index 0, 1 or 2, an attempt that leaves a score of at least 8 (the test
  \<^verbatim>\<open>verification.score >= 8\<close>, which a missing score fails) ends the loop with the
  variables and the state of that attempt, so the attempt's one \<^verbatim>\<open>run\<close> call is the
  last. No attempt has an index above 2.
\<close>

theorem search_attempts_bounded:
  "runCalls (snd (searchVisaInfo e c r d p cb w)) \<le> runCalls w + 3 \<and>
   (\<forall>n vars u vars' u'.
      n \<le> 2 \<and> attempt e c r d p cb n vars u = (Inr vars', u') \<and> accepted (currentVerification vars')
      \<longrightarrow> retry_loop (attempt e c r d p cb) n vars u = (Inr vars', u') \<and> runCalls u' = runCalls u + 1) \<and>
   (\<forall>n vars u. 2 < n \<longrightarrow> retry_loop (attempt e c r d p cb) n vars u = (Inr vars, u))"
proof (intro conjI allI impI)
  have "runCalls (snd (retry_loop (attempt e c r d p cb) 0 initialLocals (clearSession visaConsultant w)))
          \<le> runCalls (clearSession visaConsultant w) + (3 - 0)"
    by (rule retry_loop_runs) (rule runCalls_attempt)
  then show "runCalls (snd (searchVisaInfo e c r d p cb w)) \<le> runCalls w + 3"
    by (simp add: snd_searchVisaInfo)
next
  fix n vars u vars' u'
  assume h: "n \<le> 2 \<and> attempt e c r d p cb n vars u = (Inr vars', u') \<and> accepted (currentVerification vars')"
  then show "retry_loop (attempt e c r d p cb) n vars u = (Inr vars', u')"
    by (simp add: retry_loop_accept MAX_RETRIES_def)
  from h show "runCalls u' = runCalls u + 1"
    using runCalls_attempt[of e c r d p cb n vars u "Inr vars'" u'] by simp
next
  fix n :: nat and vars u
  assume "2 < n"
  then show "retry_loop (attempt e c r d p cb) n vars u = (Inr vars, u)"
    by (simp add: retry_loop_stop MAX_RETRIES_def)
qed

lemma acceptedAtOnce_attempt:
  "\<exists>v1 w1. attempt acceptedAtOnce ''Canada'' ''Canada'' ''Japan'' ''Tourism'' True 0 initialLocals
      (clearSession visaConsultant startWorld) = (Inr v1, w1) \<and> score (currentVerification v1) = Val (Num 9)"
  by (simp add: demo_eval acceptedAtOnce_def)

theorem search_attempts_bounded_witness:
  "runCalls (snd (searchVisaInfo acceptedAtOnce ''Canada'' ''Canada'' ''Japan'' ''Tourism'' True startWorld)) \<le> 3 \<and>
   (\<exists>v1 w1. attempt acceptedAtOnce ''Canada'' ''Canada'' ''Japan'' ''Tourism'' True 0 initialLocals
               (clearSession visaConsultant startWorld) = (Inr v1, w1) \<and>
            score (currentVerification v1) = Val (Num 9) \<and>
            retry_loop (attempt acceptedAtOnce ''Canada'' ''Canada'' ''Japan'' ''Tourism'' True) 0 initialLocals
               (clearSession visaConsultant startWorld) = (Inr v1, w1) \<and>
            runCalls w1 = 1)"
proof -
  note c1 = search_attempts_bounded[of acceptedAtOnce "''Canada''" "''Canada''" "''Japan''" "''Tourism''" True startWorld]
  obtain v1 w1 where a: "attempt acceptedAtOnce ''Canada'' ''Canada'' ''Japan'' ''Tourism'' True 0 initialLocals
      (clearSession visaConsultant startWorld) = (Inr v1, w1)" and s: "score (currentVerification v1) = Val (Num 9)"
    using acceptedAtOnce_attempt by blast
  have r0: "runCalls (clearSession visaConsultant startWorld) = 0"
    by (simp add: runCalls_def clearSession_def startWorld_def)
  have hyp: "(0::nat) \<le> 2 \<and> attempt acceptedAtOnce ''Canada'' ''Canada'' ''Japan'' ''Tourism'' True 0 initialLocals
      (clearSession visaConsultant startWorld) = (Inr v1, w1) \<and> accepted (currentVerification v1)"
    using a s by (simp add: accepted_def)
  have stop: "retry_loop (attempt acceptedAtOnce ''Canada'' ''Canada'' ''Japan'' ''Tourism'' True) 0 initialLocals
      (clearSession visaConsultant startWorld) = (Inr v1, w1) \<and>
      runCalls w1 = runCalls (clearSession visaConsultant startWorld) + 1"
    using c1[THEN conjunct2, THEN conjunct1, rule_format, OF hyp] .
  have bound: "runCalls (snd (searchVisaInfo acceptedAtOnce ''Canada'' ''Canada'' ''Japan'' ''Tourism'' True startWorld)) \<le> 3"
    using c1[THEN conjunct1] by (simp add: runCalls_def startWorld_def)
  show ?thesis using bound a s stop r0 by simp
qed

lemma searchVisaInfo_result:
  "searchVisaInfo e c r d p cb w =
   (case retry_loop (attempt e c r d p cb) 0 initialLocals (clearSession visaConsultant w) of
      (Inl err, w') \<Rightarrow> (Inl err, w')
    | (Inr vars, w') \<Rightarrow> (Inr (buildPolicy c r d p vars), w'))"
  by (simp add: searchVisaInfo_def)

lemma retry_loop_three_rejections:
  assumes "body 0 v0 w0 = (Inr v1, w1)" "\<not> accepted (currentVerification v1)"
    and "body 1 v1 w1 = (Inr v2, w2)" "\<not> accepted (currentVerification v2)"
    and "body 2 v2 w2 = (Inr v3, w3)"
  shows "retry_loop body 0 v0 w0 = (Inr v3, w3)"
proof -
  have "retry_loop body 0 v0 w0 = retry_loop body 1 v1 w1"
    using retry_loop_reject[of 0 body v0 w0 v1 w1] assms(1,2) by (simp add: MAX_RETRIES_def)
  also have "\<dots> = retry_loop body 2 v2 w2"
    using retry_loop_reject[of 1 body v1 w1 v2 w2] assms(3,4) by (simp add: MAX_RETRIES_def numeral_2_eq_2)
  also have "\<dots> = (Inr v3, w3)"
    using retry_loop_last[of body v2 w2 v3 w3] assms(5) by simp
  finally show ?thesis .
qed

text \<open>
  Claim C2. When the attempts with index 0, 1 and 2 all leave a score below 8 (more
  generally a score that fails the test \<^verbatim>\<open>verification.score >= 8\<close>), the call
  returns the record built from the variables of the attempt with index 2, in the state
  that attempt left: its verification, its sources, and its data fields with the defaults
  of lines 321-325. The scores of the earlier attempts play no part, so a higher earlier
  score changes nothing. (The hypothesis on the third score is the claim's; the proof does
  not use it.)
\<close>

theorem exhaustion_returns_last_attempt:
  assumes "attempt e c r d p cb 0 initialLocals (clearSession visaConsultant w) = (Inr v1, w1)"
    and "\<not> accepted (currentVerification v1)"
    and "attempt e c r d p cb 1 v1 w1 = (Inr v2, w2)"
    and "\<not> accepted (currentVerification v2)"
    and "attempt e c r d p cb 2 v2 w2 = (Inr v3, w3)"
    and "\<not> accepted (currentVerification v3)"
  shows "searchVisaInfo e c r d p cb w = (Inr (buildPolicy c r d p v3), w3) \<and>
         verification (buildPolicy c r d p v3) = currentVerification v3 \<and>
         sources (buildPolicy c r d p v3) = currentSources v3 \<and>
         visaStatus (buildPolicy c r d p v3) = or_string (data_visaStatus (currentData v3)) ''unknown'' \<and>
         summary (buildPolicy c r d p v3) = or_string (data_summary (currentData v3)) ''Summary not available'' \<and>
         whatsNext (buildPolicy c r d p v3) = or_array (data_whatsNext (currentData v3)) [] \<and>
         timeline (buildPolicy c r d p v3) = or_string (data_timeline (currentData v3)) ''Check official sources'' \<and>
         requirements (buildPolicy c r d p v3) = or_array (data_requirements (currentData v3)) []"
proof -
  have "retry_loop (attempt e c r d p cb) 0 initialLocals (clearSession visaConsultant w) = (Inr v3, w3)"
    using assms(1-5) by (rule retry_loop_three_rejections)
  then have "searchVisaInfo e c r d p cb w = (Inr (buildPolicy c r d p v3), w3)"
    by (simp add: searchVisaInfo_result)
  then show ?thesis by (simp add: buildPolicy_def)
qed

lemma rejectedThrice_attempt0:
  "\<exists>v1 w1. attempt rejectedThrice ''Canada'' ''Canada'' ''Japan'' ''Tourism'' True 0 initialLocals
      (clearSession visaConsultant startWorld) = (Inr v1, w1) \<and> score (currentVerification v1) = Val (Num 7)
      \<and> calls w1 = 2"
  by (simp add: demo_eval rejectedThrice_def)

lemma rejectedThrice_attempt1:
  "calls w1 = 2 \<Longrightarrow> \<exists>v2 w2. attempt rejectedThrice ''Canada'' ''Canada'' ''Japan'' ''Tourism'' True 1 v1 w1
      = (Inr v2, w2) \<and> score (currentVerification v2) = Val (Num 7) \<and> calls w2 = 4"
  by (simp add: demo_eval rejectedThrice_def)

lemma rejectedThrice_attempt2:
  "calls w2 = 4 \<Longrightarrow> \<exists>v3 w3. attempt rejectedThrice ''Canada'' ''Canada'' ''Japan'' ''Tourism'' True 2 v2 w2
      = (Inr v3, w3) \<and> currentVerification v3 = \<lparr>score = Val (Num 3), pass = Val False, reasoning = Val ''worse''\<rparr>
      \<and> data_summary (currentData v3) = Val ''third draft''"
  by (simp add: demo_eval rejectedThrice_def)

theorem exhaustion_returns_last_attempt_witness:
  "\<exists>pol w'. searchVisaInfo rejectedThrice ''Canada'' ''Canada'' ''Japan'' ''Tourism'' True startWorld = (Inr pol, w')
     \<and> verification pol = \<lparr>score = Val (Num 3), pass = Val False, reasoning = Val ''worse''\<rparr>
     \<and> summary pol = ''third draft''"
proof -
  obtain v1 w1 where a0: "attempt rejectedThrice ''Canada'' ''Canada'' ''Japan'' ''Tourism'' True 0 initialLocals
      (clearSession visaConsultant startWorld) = (Inr v1, w1)"
    and s1: "score (currentVerification v1) = Val (Num 7)" and c1: "calls w1 = 2"
    using rejectedThrice_attempt0 by blast
  obtain v2 w2 where a1: "attempt rejectedThrice ''Canada'' ''Canada'' ''Japan'' ''Tourism'' True 1 v1 w1 = (Inr v2, w2)"
    and s2: "score (currentVerification v2) = Val (Num 7)" and c2: "calls w2 = 4"
    using rejectedThrice_attempt1[OF c1] by blast
  obtain v3 w3 where a2: "attempt rejectedThrice ''Canada'' ''Canada'' ''Japan'' ''Tourism'' True 2 v2 w2 = (Inr v3, w3)"
    and s3: "currentVerification v3 = \<lparr>score = Val (Num 3), pass = Val False, reasoning = Val ''worse''\<rparr>"
    and d3: "data_summary (currentData v3) = Val ''third draft''"
    using rejectedThrice_attempt2[OF c2] by blast
  have lt1: "\<not> accepted (currentVerification v1)" and lt2: "\<not> accepted (currentVerification v2)"
    and lt3: "\<not> accepted (currentVerification v3)"
    using s1 s2 s3 by (simp_all add: accepted_def)
  show ?thesis
    using exhaustion_returns_last_attempt[OF a0 lt1 a1 lt2 a2 lt3] s3 d3 by simp
qed

section \<open>The guardrail on missing sources\<close>



lemma guardrail_alt_empty:
  "guardrail_alt [] v =
     v\<lparr>score := Val (math_min (to_number (score v)) (Num 5)),
       reasoning := Val (template (reasoning v) @ '' Missing official sources.'')\<rparr>"
  by (simp add: guardrail_alt_def)


lemma attempt_alt_guardrail:
  "attempt_alt e c r d p cb n vars u = (Inr vars', u') \<Longrightarrow>
   \<exists>v. currentVerification vars' = guardrail_alt (currentSources vars') v"
  unfolding attempt_alt_def Let_def
  by (auto split: prod.splits sum.splits if_splits parsed.splits)












section \<open>The evaluator and its output\<close>










text \<open>
  Claim C10. Two contents with the same first 3000 characters give the same evaluation
  prompt, hence the same request and the same outcome of \<^verbatim>\<open>evaluateOutput\<close> in the same
  surroundings.
\<close>

theorem audit_prompt_reads_3000_characters:
  "take 3000 content1 = take 3000 content2 \<Longrightarrow>
   auditPrompt content1 crit = auditPrompt content2 crit \<and>
   evaluateOutput e (Some content1) crit w = evaluateOutput e (Some content2) crit w"
  by (simp add: auditPrompt_def evaluateOutput_def)

theorem audit_prompt_reads_3000_characters_witness:
  "replicate 3000 (CHR ''a'') @ ''x'' \<noteq> replicate 3000 (CHR ''a'') @ ''y'' \<and>
   auditPrompt (replicate 3000 (CHR ''a'') @ ''x'') criteria =
   auditPrompt (replicate 3000 (CHR ''a'') @ ''y'') criteria \<and>
   evaluateOutput acceptedAtOnce (Some (replicate 3000 (CHR ''a'') @ ''x'')) criteria startWorld =
   evaluateOutput acceptedAtOnce (Some (replicate 3000 (CHR ''a'') @ ''y'')) criteria startWorld"
proof -
  have h: "take 3000 (replicate 3000 (CHR ''a'') @ ''x'') = take 3000 (replicate 3000 (CHR ''a'') @ ''y'')"
    by simp
  show ?thesis
    using audit_prompt_reads_3000_characters[OF h, of criteria acceptedAtOnce startWorld] by simp
qed

section \<open>The reconciled source list\<close>

lemma addSource_eq:
  "addSource m s = (if truthy (uri s) \<and> uri s \<notin> fst ` set m then m @ [(uri s, s)] else m)"
  by (simp add: addSource_def map_set_def map_has_def)

lemma keys_map_set: "map fst (map_set m k v) = (if map_has m k then map fst m else map fst m @ [k])"
  unfolding map_set_def map_has_def
  by (induction m) (auto split: prod.splits)

lemma keyed_addSource: "keyed m \<Longrightarrow> keyed (addSource m s)"
  unfolding keyed_def addSource_eq
  by auto

lemma keyed_foldl: "keyed m \<Longrightarrow> keyed (foldl addSource m xs)"
  by (induction xs arbitrary: m) (auto simp: keyed_addSource)

lemma keyed_uris: "keyed m \<Longrightarrow> map uri (map_values m) = map fst m"
  unfolding keyed_def map_values_def by (induction m) auto

lemma keyed_map_set: "keyed m \<Longrightarrow> keyed (map_set m (uri s) s)"
  unfolding keyed_def by (auto simp: keys_map_set map_has_def) (auto simp: map_set_def split: if_splits)

lemma keyed_foldl_alt:
  "keyed m \<Longrightarrow> keyed (foldl (\<lambda>m (k, s). map_set m k s) m (map (\<lambda>s. (uri s, s)) xs))"
  by (induction xs arbitrary: m) (auto simp: keyed_map_set)

lemma distinct_reconcile: "distinct (map uri (reconcile a b))"
  using keyed_foldl[of "[]" "a @ b"] keyed_uris[of "foldl addSource [] (a @ b)"]
  unfolding reconcile_def uniqueSources_def
  by (simp add: keyed_def)

lemma distinct_reconcile_alt: "distinct (map uri (reconcile_alt a b))"
  using keyed_foldl_alt[of "[]" "a @ b"]
    keyed_uris[of "foldl (\<lambda>m (k, s). map_set m k s) [] (map (\<lambda>s. (uri s, s)) (a @ b))"]
  unfolding reconcile_alt_def uniqueSources_alt_def
  by (simp add: keyed_def)

lemma map_of_addSource:
  "map_of (addSource m s) k =
     (case map_of m k of Some t \<Rightarrow> Some t
      | None \<Rightarrow> if truthy k \<and> uri s = k then Some s else None)"
  by (auto simp: addSource_eq map_add_def simp flip: map_of_eq_None_iff split: option.splits)

lemma map_of_foldl:
  "map_of (foldl addSource m xs) k =
     (case map_of m k of Some t \<Rightarrow> Some t
      | None \<Rightarrow> if truthy k then find (\<lambda>s. uri s = k) xs else None)"
  by (induction xs arbitrary: m) (auto simp: map_of_addSource split: option.splits)

lemma find_values: "keyed m \<Longrightarrow> find (\<lambda>s. uri s = k) (map_values m) = map_of m k"
  unfolding keyed_def map_values_def
  by (induction m) (auto)

lemma find_append: "find P (xs @ ys) = (case find P xs of None \<Rightarrow> find P ys | Some x \<Rightarrow> Some x)"
  by (induction xs) auto

lemma find_reconcile:
  "truthy u \<Longrightarrow> find (\<lambda>s. uri s = u) (reconcile ex im) = find (\<lambda>s. uri s = u) (ex @ im)"
  unfolding reconcile_def uniqueSources_def
  using keyed_foldl[of "[]" "ex @ im"] by (simp add: find_values map_of_foldl keyed_def find_append)

lemma filter_distinct_key:
  "distinct (map f xs) \<Longrightarrow> x \<in> set xs \<Longrightarrow> length (filter (\<lambda>s. f s = f x) xs) = 1"
  by (induction xs) (auto simp: filter_empty_conv image_iff)

text \<open>
  In \<^verbatim>\<open>services/gemini.ts\<close> the first occurrence wins: when an explicit entry has the
  non-empty URI \<open>u\<close>, the one merged entry with that URI is the first explicit entry with
  it, whatever the implicit list holds.
\<close>

lemma reconcile_explicit_first:
  assumes "truthy u" "x \<in> set ex" "uri x = u"
  shows "\<exists>y. find (\<lambda>s. uri s = u) ex = Some y \<and> find (\<lambda>s. uri s = u) (reconcile ex im) = Some y \<and>
             length (filter (\<lambda>s. uri s = u) (reconcile ex im)) = 1"
proof -
  obtain y where y: "find (\<lambda>s. uri s = u) ex = Some y"
    using assms(2,3) by (cases "find (\<lambda>s. uri s = u) ex") (auto simp: find_None_iff)
  have f: "find (\<lambda>s. uri s = u) (reconcile ex im) = Some y"
    using find_reconcile[OF assms(1), of ex im] y by (simp add: find_append)
  then have "y \<in> set (reconcile ex im)" and "uri y = u"
    by (auto simp: find_Some_iff)
  then have "length (filter (\<lambda>s. uri s = u) (reconcile ex im)) = 1"
    using distinct_reconcile[of ex im] filter_distinct_key[of uri "reconcile ex im" y] by simp
  then show ?thesis using y f by simp
qed

text \<open>
  Claim C5, at an input where the structured list and the grounding metadata name the same
  URI with different titles. The second copy of the module (\<^verbatim>\<open>new Map(allSources.map(...))\<close>)
  keeps the position of the first entry but the value of the last one, so the merged entry
  carries the title of the grounding metadata; \<^verbatim>\<open>services/gemini.ts\<close>, which tests
  \<^verbatim>\<open>has\<close> before \<^verbatim>\<open>set\<close>, keeps the explicit title at the same input (and whenever
  the shared URI is not empty, by \<open>reconcile_explicit_first\<close>).
\<close>

theorem duplicate_uri_title_second_copy:
  "metadataSources groundedReply = [\<lparr>title = Val ''mofa.go.jp'', uri = Val ''https://www.mofa.go.jp''\<rparr>] \<and>
   reconcile_alt [\<lparr>title = Val ''Ministry of Foreign Affairs'', uri = Val ''https://www.mofa.go.jp''\<rparr>]
       (metadataSources groundedReply) =
     [\<lparr>title = Val ''mofa.go.jp'', uri = Val ''https://www.mofa.go.jp''\<rparr>] \<and>
   reconcile [\<lparr>title = Val ''Ministry of Foreign Affairs'', uri = Val ''https://www.mofa.go.jp''\<rparr>]
       (metadataSources groundedReply) =
     [\<lparr>title = Val ''Ministry of Foreign Affairs'', uri = Val ''https://www.mofa.go.jp''\<rparr>]"
  by (simp add: metadataSources_def groundedReply_def List.map_filter_def reconcile_alt_def uniqueSources_alt_def
        reconcile_def uniqueSources_def addSource_def map_set_def map_has_def map_values_def)

lemma attempt_sources:
  "attempt e c r d p cb n vars u = (Inr vars', u') \<Longrightarrow> distinct (map uri (currentSources vars'))"
  unfolding attempt_def Let_def
  by (auto split: prod.splits sum.splits if_splits parsed.splits simp: distinct_reconcile)

lemma attempt_alt_sources:
  "attempt_alt e c r d p cb n vars u = (Inr vars', u') \<Longrightarrow> distinct (map uri (currentSources vars'))"
  unfolding attempt_alt_def Let_def
  by (auto split: prod.splits sum.splits if_splits parsed.splits simp: distinct_reconcile_alt)

lemma searchVisaInfo_alt_result:
  "searchVisaInfo_alt e c r d p cb w =
   (case retry_loop (attempt_alt e c r d p cb) 0 initialLocals (clearSession visaConsultant w) of
      (Inl err, w') \<Rightarrow> (Inl err, w')
    | (Inr vars, w') \<Rightarrow> (Inr (buildPolicy c r d p vars), w'))"
  by (simp add: searchVisaInfo_alt_def)

text \<open>
  Claim C6. No URI occurs twice in a reconciled list, in either copy of the module, and so
  none occurs twice in the sources of a record that \<^verbatim>\<open>searchVisaInfo\<close> returns.
\<close>

theorem reconciled_uris_unique:
  "distinct (map uri (reconcile jsonSources implicit)) \<and>
   distinct (map uri (reconcile_alt jsonSources implicit)) \<and>
   (\<forall>pol w'. searchVisaInfo e c r d p cb w = (Inr pol, w') \<longrightarrow> distinct (map uri (sources pol))) \<and>
   (\<forall>pol w'. searchVisaInfo_alt e c r d p cb w = (Inr pol, w') \<longrightarrow> distinct (map uri (sources pol)))"
proof (intro conjI allI impI)
  show "distinct (map uri (reconcile jsonSources implicit))" by (rule distinct_reconcile)
  show "distinct (map uri (reconcile_alt jsonSources implicit))" by (rule distinct_reconcile_alt)
next
  fix pol w'
  assume h: "searchVisaInfo e c r d p cb w = (Inr pol, w')"
  obtain res u where l: "retry_loop (attempt e c r d p cb) 0 initialLocals (clearSession visaConsultant w) = (res, u)"
    by (cases "retry_loop (attempt e c r d p cb) 0 initialLocals (clearSession visaConsultant w)")
  from h l obtain vars where res: "res = Inr vars" and pol: "pol = buildPolicy c r d p vars"
    by (cases res) (auto simp: searchVisaInfo_result)
  have "distinct (map uri (currentSources vars))"
    using retry_loop_result[where P = "\<lambda>x. distinct (map uri (currentSources x))"
        and body = "attempt e c r d p cb", OF attempt_sources] l res
    by (simp add: MAX_RETRIES_def)
  then show "distinct (map uri (sources pol))" using pol by (simp add: buildPolicy_def)
next
  fix pol w'
  assume h: "searchVisaInfo_alt e c r d p cb w = (Inr pol, w')"
  obtain res u where l: "retry_loop (attempt_alt e c r d p cb) 0 initialLocals (clearSession visaConsultant w) = (res, u)"
    by (cases "retry_loop (attempt_alt e c r d p cb) 0 initialLocals (clearSession visaConsultant w)")
  from h l obtain vars where res: "res = Inr vars" and pol: "pol = buildPolicy c r d p vars"
    by (cases res) (auto simp: searchVisaInfo_alt_result)
  have "distinct (map uri (currentSources vars))"
    using retry_loop_result[where P = "\<lambda>x. distinct (map uri (currentSources x))"
        and body = "attempt_alt e c r d p cb", OF attempt_alt_sources] l res
    by (simp add: MAX_RETRIES_def)
  then show "distinct (map uri (sources pol))" using pol by (simp add: buildPolicy_def)
qed

lemma acceptedAtOnce_search:
  "\<exists>pol w'. searchVisaInfo acceptedAtOnce ''Canada'' ''Canada'' ''Japan'' ''Tourism'' True startWorld = (Inr pol, w')"
proof -
  obtain v1 w1 where a: "attempt acceptedAtOnce ''Canada'' ''Canada'' ''Japan'' ''Tourism'' True 0 initialLocals
      (clearSession visaConsultant startWorld) = (Inr v1, w1)" and s: "score (currentVerification v1) = Val (Num 9)"
    using acceptedAtOnce_attempt by blast
  have "retry_loop (attempt acceptedAtOnce ''Canada'' ''Canada'' ''Japan'' ''Tourism'' True) 0 initialLocals
      (clearSession visaConsultant startWorld) = (Inr v1, w1)"
    using a s by (simp add: retry_loop_accept MAX_RETRIES_def accepted_def)
  then show ?thesis by (simp add: searchVisaInfo_result)
qed

lemma acceptedAtOnce_attempt_alt:
  "\<exists>v1 w1. attempt_alt acceptedAtOnce ''Canada'' ''Canada'' ''Japan'' ''Tourism'' True 0 initialLocals
      (clearSession visaConsultant startWorld) = (Inr v1, w1) \<and> score (currentVerification v1) = Val (Num 9)"
  by (simp add: attempt_alt_def evaluate_alt_def guardrail_alt_def reconcile_alt_def uniqueSources_alt_def
        demo_eval acceptedAtOnce_def)

lemma acceptedAtOnce_search_alt:
  "\<exists>pol w'. searchVisaInfo_alt acceptedAtOnce ''Canada'' ''Canada'' ''Japan'' ''Tourism'' True startWorld = (Inr pol, w')"
proof -
  obtain v1 w1 where a: "attempt_alt acceptedAtOnce ''Canada'' ''Canada'' ''Japan'' ''Tourism'' True 0 initialLocals
      (clearSession visaConsultant startWorld) = (Inr v1, w1)" and s: "score (currentVerification v1) = Val (Num 9)"
    using acceptedAtOnce_attempt_alt by blast
  have "retry_loop (attempt_alt acceptedAtOnce ''Canada'' ''Canada'' ''Japan'' ''Tourism'' True) 0 initialLocals
      (clearSession visaConsultant startWorld) = (Inr v1, w1)"
    using a s by (simp add: retry_loop_accept MAX_RETRIES_def accepted_def)
  then show ?thesis by (simp add: searchVisaInfo_alt_result)
qed

theorem reconciled_uris_unique_witness:
  "(\<exists>pol w'. searchVisaInfo acceptedAtOnce ''Canada'' ''Canada'' ''Japan'' ''Tourism'' True startWorld = (Inr pol, w')
      \<and> distinct (map uri (sources pol))) \<and>
   (\<exists>pol w'. searchVisaInfo_alt acceptedAtOnce ''Canada'' ''Canada'' ''Japan'' ''Tourism'' True startWorld = (Inr pol, w')
      \<and> distinct (map uri (sources pol)))"
proof -
  note c6 = reconciled_uris_unique[of "[]" "[]" acceptedAtOnce "''Canada''" "''Canada''" "''Japan''" "''Tourism''" True startWorld]
  obtain pol w' where s: "searchVisaInfo acceptedAtOnce ''Canada'' ''Canada'' ''Japan'' ''Tourism'' True startWorld = (Inr pol, w')"
    using acceptedAtOnce_search by blast
  obtain pol2 w2 where s2: "searchVisaInfo_alt acceptedAtOnce ''Canada'' ''Canada'' ''Japan'' ''Tourism'' True startWorld = (Inr pol2, w2)"
    using acceptedAtOnce_search_alt by blast
  have "distinct (map uri (sources pol))"
    using c6[THEN conjunct2, THEN conjunct2, THEN conjunct1, rule_format, OF s] .
  moreover have "distinct (map uri (sources pol2))"
    using c6[THEN conjunct2, THEN conjunct2, THEN conjunct2, rule_format, OF s2] .
  ultimately show ?thesis using s s2 by blast
qed

section \<open>Sessions and their reset\<close>

text \<open>
  What \<^verbatim>\<open>run\<close> sends: the context of the chat of that persona, or its (empty) history
  when the session has no chat.
\<close>

lemma run_issued:
  "issued (snd (run e p prompt sch w)) =
   issued w @ [SendMessage p (case chat (sessions w p) of None \<Rightarrow> history (sessions w p) | Some c \<Rightarrow> c) prompt sch]"
  by (simp add: run_def getSession_def Let_def split: sum.splits option.splits)

lemma run_after_clear:
  "issued (snd (run e p prompt sch (notify cb stage (clearSession p w)))) = issued w @ [SendMessage p [] prompt sch]"
  by (simp add: run_issued clearSession_def notify_def)

text \<open>The three orchestrators that call \<^verbatim>\<open>clearSession\<close> first send an empty context.\<close>

lemma getCommonVisaPurposes_fresh:
  "\<exists>prompt. issued (snd (getCommonVisaPurposes e c d w)) =
     issued w @ [SendMessage visaConsultant [] prompt (Some PurposeList)]"
proof -
  have "snd (getCommonVisaPurposes e c d w) =
        snd (run e visaConsultant
             (''Suggest 5 common visa purposes for a '' @ c @ '' citizen visiting '' @ d @ ''. Return JSON only.'')
             (Some PurposeList) (clearSession visaConsultant w))"
    by (simp add: getCommonVisaPurposes_def split: prod.splits sum.splits)
  then show ?thesis
    using run_after_clear[of e visaConsultant _ "Some PurposeList" False "[]" w] by (simp add: notify_def)
qed

lemma getTravelAdvisory_fresh:
  "\<exists>prompt. issued (snd (getTravelAdvisory e d w)) =
     issued w @ [SendMessage travelGuide [] prompt (Some TipList)]"
proof -
  have "snd (getTravelAdvisory e d w) =
        snd (run e travelGuide
             (''Give me 3 critical safety or cultural etiquette tips for a tourist visiting '' @ d @ ''.'')
             (Some TipList) (clearSession travelGuide w))"
    by (simp add: getTravelAdvisory_def split: prod.splits sum.splits)
  then show ?thesis
    using run_after_clear[of e travelGuide _ "Some TipList" False "[]" w] by (simp add: notify_def)
qed

text \<open>The two orchestrators of the drafter send whatever context the chat holds.\<close>

lemma generateDocumentChecklist_issued:
  "issued (snd (generateDocumentChecklist e policy w)) =
   issued w @ [SendMessage legalDrafter
                 (case chat (sessions w legalDrafter) of None \<Rightarrow> history (sessions w legalDrafter) | Some c \<Rightarrow> c)
                 (checklistPrompt policy) (Some ChecklistItems)]"
proof -
  have "snd (generateDocumentChecklist e policy w) =
        snd (run e legalDrafter (checklistPrompt policy) (Some ChecklistItems) w)"
    by (simp add: generateDocumentChecklist_def split: prod.splits sum.splits json.splits)
  then show ?thesis by (simp add: run_issued)
qed

lemma generateVisaDocument_issued:
  "issued (snd (generateVisaDocument e t data w)) =
   issued w @ [SendMessage legalDrafter
                 (case chat (sessions w legalDrafter) of None \<Rightarrow> history (sessions w legalDrafter) | Some c \<Rightarrow> c)
                 (documentPrompt e t data) None]"
proof -
  have "snd (generateVisaDocument e t data w) = snd (run e legalDrafter (documentPrompt e t data) None w)"
    by (simp add: generateVisaDocument_def split: prod.splits sum.splits)
  then show ?thesis by (simp add: run_issued)
qed

text \<open>
  Claim C7, at the two orchestrators of the drafter. Neither \<^verbatim>\<open>generateDocumentChecklist\<close>
  nor \<^verbatim>\<open>generateVisaDocument\<close> calls \<^verbatim>\<open>clearSession\<close>. From the start of the process, a
  cover letter is drafted and then a checklist is generated: the message of the checklist is
  sent in the chat that still holds the turn of the cover letter.
\<close>

theorem drafter_run_carries_previous_task:
  "issued (snd (generateDocumentChecklist drafterReplies demoPolicy
     (snd (generateVisaDocument drafterReplies cover_letter [(''destination'', ''Japan'')] startWorld)))) =
   [SendMessage legalDrafter [] (documentPrompt drafterReplies cover_letter [(''destination'', ''Japan'')]) None,
    SendMessage legalDrafter
      [(documentPrompt drafterReplies cover_letter [(''destination'', ''Japan'')], Some ''Dear Consul,'')]
      (checklistPrompt demoPolicy) (Some ChecklistItems)]"
  by (simp add: generateDocumentChecklist_issued generateVisaDocument_issued)
     (simp add: generateVisaDocument_def run_def getSession_def drafterReplies_def scripted_def startWorld_def Let_def)

section \<open>The checklist\<close>

lemma map_of_replace:
  "map_of (map (\<lambda>(k', v'). if k' = k then (k', v) else (k', v')) m) k =
     (if k \<in> fst ` set m then Some v else None)"
  by (induction m) auto

lemma map_of_map_set: "map_of (map_set m k v) k = Some v"
proof (cases "k \<in> fst ` set m")
  case True
  then show ?thesis by (simp add: map_set_def map_has_def map_of_replace)
next
  case False
  then have "map_of m k = None" by (simp add: map_of_eq_None_iff)
  then show ?thesis using False by (simp add: map_set_def map_has_def map_add_def)
qed

lemma get_prop_completed: "get_prop (JObj (map_set props ''completed'' (JBool False))) ''completed'' = Inr (Some (JBool False))"
  by (simp add: map_of_map_set)

text \<open>
  Claim C8. Every item of a checklist that \<^verbatim>\<open>generateDocumentChecklist\<close> returns has
  \<^verbatim>\<open>completed\<close> equal to \<^verbatim>\<open>false\<close>, whatever the parsed items held under that name.
\<close>

theorem checklist_items_start_uncompleted:
  "fst (generateDocumentChecklist e policy w) = Inr items \<Longrightarrow>
   \<forall>item \<in> set items. get_prop item ''completed'' = Inr (Some (JBool False))"
  unfolding generateDocumentChecklist_def
  by (auto split: prod.splits sum.splits json.splits simp: map_of_map_set)

theorem checklist_items_start_uncompleted_witness:
  "fst (generateDocumentChecklist checklistReply demoPolicy startWorld) =
     Inr [JObj [(''id'', JStr ''passport''), (''completed'', JBool False)]] \<and>
   get_prop (JObj [(''id'', JStr ''passport''), (''completed'', JBool False)]) ''completed'' =
     Inr (Some (JBool False))"
proof -
  have g: "fst (generateDocumentChecklist checklistReply demoPolicy startWorld) =
     Inr [JObj [(''id'', JStr ''passport''), (''completed'', JBool False)]]"
    by (simp add: generateDocumentChecklist_def run_def getSession_def checklistReply_def scripted_def
          startWorld_def JSON_parse_def text_or_def demo_parse_json_def map_set_def map_has_def Let_def)
  show ?thesis using checklist_items_start_uncompleted[OF g] g by simp
qed

section \<open>The passport image\<close>

lemma cleanText_json_fence: "cleanText (Some (''```json'' @ nl @ body @ nl @ ''```'')) = body"
  by (simp add: cleanText_def text_or_def replace_head_def replace_tail_def nl_def suffix_def)

lemma cleanText_plain_fence: "cleanText (Some (''```'' @ nl @ body @ nl @ ''```'')) = body"
  by (simp add: cleanText_def text_or_def replace_head_def replace_tail_def nl_def suffix_def)

lemma get_prop_not_null:
  "get_prop result name = Inr v \<Longrightarrow> get_prop result name' = Inr (case get_prop result name' of Inl err \<Rightarrow> None | Inr x \<Rightarrow> x)"
  by (cases result) simp_all

text \<open>
  Claim C9, as stated, fails: the test is \<^verbatim>\<open>!result.passportNumber && !result.fullName\<close>,
  and an empty string is falsy. A reply whose \<^verbatim>\<open>fullName\<close> is present as \<^verbatim>\<open>""\<close> and whose
  \<^verbatim>\<open>passportNumber\<close> is \<^verbatim>\<open>null\<close> makes both copies throw.
\<close>

theorem empty_name_counts_as_missing:
  "get_prop (JObj [(''fullName'', JStr []), (''passportNumber'', JNull)]) ''fullName'' = Inr (Some (JStr [])) \<and>
   fst (parsePassportImage emptyNameReply ''aGVsbG8='' ''image/jpeg'' startWorld) = Inl extractionError \<and>
   fst (parsePassportImage_alt emptyNameReply ''aGVsbG8='' ''image/jpeg'' startWorld) =
     Inl (JsError ''Could not extract details.'')"
  by (simp add: parsePassportImage_def parsePassportImage_alt_def emptyNameReply_def scripted_def startWorld_def
        cleanText_def text_or_def JSON_parse_def demo_parse_json_def checkPassport_def checkPassport_alt_def Let_def)

text \<open>
  Claim C9, amended. When the reply parses to a value that is not \<^verbatim>\<open>null\<close>, the call throws
  the extraction error exactly when \<^verbatim>\<open>passportNumber\<close> and \<^verbatim>\<open>fullName\<close> are both falsy
  (absent, \<^verbatim>\<open>null\<close>, the empty string, \<^verbatim>\<open>0\<close> or \<^verbatim>\<open>false\<close>); when one of them is
  truthy it returns the five fields as they were read, absent or \<^verbatim>\<open>null\<close> ones included.
  A text wrapped in a \<^verbatim>\<open>```json\<close> or \<^verbatim>\<open>```\<close> line and a closing \<^verbatim>\<open>```\<close> line is
  parsed without them.
\<close>

theorem passport_extraction_outcome:
  assumes "service e (calls w) (GenerateFromImage base64Image mimeType passportPrompt) = Inr r"
    and "JSON_parse e (cleanText (response_text r)) = Inr result"
    and "get_prop result ''passportNumber'' = Inr passportNumber"
    and "get_prop result ''fullName'' = Inr fullName"
  shows "(fst (parsePassportImage e base64Image mimeType w) = Inl extractionError
            \<longleftrightarrow> \<not> truthy_json passportNumber \<and> \<not> truthy_json fullName) \<and>
         (truthy_json passportNumber \<or> truthy_json fullName \<longrightarrow>
            (\<exists>fields. fst (parsePassportImage e base64Image mimeType w) = Inr fields \<and>
                      map fst fields = [''fullName'', ''passportNumber'', ''citizenship'', ''dateOfBirth'', ''passportExpiry''] \<and>
                      map_of fields ''fullName'' = Some fullName \<and>
                      map_of fields ''passportNumber'' = Some passportNumber)) \<and>
         cleanText (Some (''```json'' @ nl @ body @ nl @ ''```'')) = body \<and>
         cleanText (Some (''```'' @ nl @ body @ nl @ ''```'')) = body"
proof -
  have p: "fst (parsePassportImage e base64Image mimeType w) = checkPassport result"
    using assms(1,2) by (simp add: parsePassportImage_def Let_def)
  have c: "checkPassport result =
      (if \<not> truthy_json passportNumber \<and> \<not> truthy_json fullName then Inl extractionError
       else Inr (map (\<lambda>name. (name, (case get_prop result name of Inl err \<Rightarrow> None | Inr v \<Rightarrow> v)))
                  [''fullName'', ''passportNumber'', ''citizenship'', ''dateOfBirth'', ''passportExpiry'']))"
    using assms(3,4) by (simp add: checkPassport_def)
  show ?thesis
    using p c assms(3,4) cleanText_json_fence[of body] cleanText_plain_fence[of body]
    by (auto simp: comp_def)
qed

theorem passport_extraction_outcome_witness:
  "\<exists>fields. fst (parsePassportImage fencedNameReply ''aGVsbG8='' ''image/jpeg'' startWorld) = Inr fields \<and>
     map_of fields ''fullName'' = Some (Some (JStr ''A. Traveller'')) \<and>
     map_of fields ''passportNumber'' = Some (Some JNull)"
proof -
  let ?r = "\<lparr>response_text = Some (''```json'' @ nl @ ''{\"fullName\":\"A. Traveller\",\"passportNumber\":null}'' @ nl @ ''```''),
             groundingChunks = None\<rparr>"
  let ?result = "JObj [(''fullName'', JStr ''A. Traveller''), (''passportNumber'', JNull)]"
  have s: "service fencedNameReply (calls startWorld) (GenerateFromImage ''aGVsbG8='' ''image/jpeg'' passportPrompt) = Inr ?r"
    by (simp add: fencedNameReply_def scripted_def startWorld_def)
  have j: "JSON_parse fencedNameReply (cleanText (response_text ?r)) = Inr ?result"
    unfolding response.select_convs cleanText_json_fence
    by (simp add: JSON_parse_def fencedNameReply_def scripted_def demo_parse_json_def)
  have pn: "get_prop ?result ''passportNumber'' = Inr (Some JNull)" by simp
  have fn: "get_prop ?result ''fullName'' = Inr (Some (JStr ''A. Traveller''))" by simp
  show ?thesis
    using passport_extraction_outcome[OF s j pn fn, of "[]"] by auto
qed

section \<open>The second copy of the module\<close>

text \<open>
  The second copy of the module has the same loop around its own body, so the results on
  the attempts and on exhaustion hold for it as well, and its guardrail computes the same
  score (its notice reads \<^verbatim>\<open>" Missing official sources."\<close>). Its test of the passport
  fields is the same.
\<close>

lemma search_alt_attempts_bounded:
  "runCalls (snd (searchVisaInfo_alt e c r d p cb w)) \<le> runCalls w + 3"
proof -
  obtain res w' where l: "retry_loop (attempt_alt e c r d p cb) 0 initialLocals (clearSession visaConsultant w) = (res, w')"
    by (cases "retry_loop (attempt_alt e c r d p cb) 0 initialLocals (clearSession visaConsultant w)")
  have "snd (searchVisaInfo_alt e c r d p cb w) = w'"
    unfolding searchVisaInfo_alt_def l by (cases res) simp_all
  moreover have "runCalls (snd (retry_loop (attempt_alt e c r d p cb) 0 initialLocals (clearSession visaConsultant w)))
          \<le> runCalls (clearSession visaConsultant w) + (3 - 0)"
    by (rule retry_loop_runs) (rule runCalls_attempt_alt)
  ultimately show ?thesis using l by simp
qed

lemma exhaustion_alt_returns_last_attempt:
  assumes "attempt_alt e c r d p cb 0 initialLocals (clearSession visaConsultant w) = (Inr v1, w1)"
    and "\<not> accepted (currentVerification v1)"
    and "attempt_alt e c r d p cb 1 v1 w1 = (Inr v2, w2)"
    and "\<not> accepted (currentVerification v2)"
    and "attempt_alt e c r d p cb 2 v2 w2 = (Inr v3, w3)"
  shows "searchVisaInfo_alt e c r d p cb w = (Inr (buildPolicy c r d p v3), w3)"
proof -
  have "retry_loop (attempt_alt e c r d p cb) 0 initialLocals (clearSession visaConsultant w) = (Inr v3, w3)"
    using assms by (rule retry_loop_three_rejections)
  then show ?thesis by (simp add: searchVisaInfo_alt_result)
qed

lemma empty_sources_alt_guardrail:
  assumes "searchVisaInfo_alt e c r d p cb w = (Inr pol, w')" "sources pol = []"
  shows "\<exists>v. verification pol =
           v\<lparr>score := Val (math_min (to_number (score v)) (Num 5)),
             reasoning := Val (template (reasoning v) @ '' Missing official sources.'')\<rparr>"
proof -
  obtain res u where l: "retry_loop (attempt_alt e c r d p cb) 0 initialLocals (clearSession visaConsultant w) = (res, u)"
    by (cases "retry_loop (attempt_alt e c r d p cb) 0 initialLocals (clearSession visaConsultant w)")
  from assms(1) l obtain vars where res: "res = Inr vars" and pol: "pol = buildPolicy c r d p vars"
    by (cases res) (auto simp: searchVisaInfo_alt_result)
  have "\<exists>v. currentVerification vars = guardrail_alt (currentSources vars) v"
    using retry_loop_result[where P = "\<lambda>x. \<exists>v. currentVerification x = guardrail_alt (currentSources x) v"
        and body = "attempt_alt e c r d p cb", OF attempt_alt_guardrail] l res
    by (simp add: MAX_RETRIES_def)
  moreover have "currentSources vars = []" using assms(2) pol by (simp add: buildPolicy_def)
  ultimately obtain v where "currentVerification vars = guardrail_alt [] v" by auto
  then show ?thesis using guardrail_alt_empty[of v] pol by (auto simp: buildPolicy_def)
qed

lemma checkPassport_alt_outcome:
  assumes "get_prop result ''passportNumber'' = Inr passportNumber"
    and "get_prop result ''fullName'' = Inr fullName"
  shows "checkPassport_alt result =
     (if \<not> truthy_json passportNumber \<and> \<not> truthy_json fullName
      then Inl (JsError ''Could not extract details.'') else Inr result)"
  using assms by (simp add: checkPassport_alt_def)

end
